theory Spec2Isabelle
  imports Main
begin

section \<open>JavaScript values\<close>

text \<open>
  The handlers of \<^verbatim>\<open>app.mjs\<close> read JSON request bodies, cookies and decoded token
  payloads, and test them with JavaScript truthiness (\<^verbatim>\<open>!x\<close>) and strict equality
  (\<^verbatim>\<open>!==\<close>). Numbers are the integers (identifiers, counters); fractions, NaN and
  the infinities are outside the model.
\<close>

datatype jsval =
    JUndefined
  | JNull
  | JBool bool
  | JNum int
  | JStr string
  | JArr "jsval list"
  | JObj "(string \<times> jsval) list"

text \<open>\<^verbatim>\<open>!x\<close>: undefined, null, false, 0 and the empty string are falsy.\<close>

fun falsy :: "jsval \<Rightarrow> bool" where
  "falsy JUndefined = True"
| "falsy JNull = True"
| "falsy (JBool b) = (\<not> b)"
| "falsy (JNum n) = (n = 0)"
| "falsy (JStr s) = (s = [])"
| "falsy (JArr xs) = False"
| "falsy (JObj kvs) = False"

text \<open>
  \<^verbatim>\<open>a === b\<close> for two values that come from different places (two fields of a parsed
  body, a column and a token payload): primitives are compared by type and value, and two
  arrays or objects are never the same reference.
\<close>

fun strict_eq :: "jsval \<Rightarrow> jsval \<Rightarrow> bool" where
  "strict_eq JUndefined JUndefined = True"
| "strict_eq JNull JNull = True"
| "strict_eq (JBool a) (JBool b) = (a = b)"
| "strict_eq (JNum a) (JNum b) = (a = b)"
| "strict_eq (JStr a) (JStr b) = (a = b)"
| "strict_eq a b = False"

text \<open>
  Property access \<^verbatim>\<open>v.k\<close>: a \<^verbatim>\<open>TypeError\<close> on undefined and null, the property's
  value on an object that has it, undefined otherwise.
\<close>

type_synonym exn = string

definition get_prop :: "jsval \<Rightarrow> string \<Rightarrow> exn + jsval" where
  "get_prop v k =
     (case v of
        JUndefined \<Rightarrow> Inl ''TypeError: Cannot read properties of undefined''
      | JNull \<Rightarrow> Inl ''TypeError: Cannot read properties of null''
      | JObj kvs \<Rightarrow> (case map_of kvs k of None \<Rightarrow> Inr JUndefined | Some x \<Rightarrow> Inr x)
      | _ \<Rightarrow> Inr JUndefined)"

text \<open>
  A field of \<^verbatim>\<open>req.body\<close>, \<^verbatim>\<open>req.cookies\<close> or \<^verbatim>\<open>req.params\<close>: the three
  are objects, modelled as maps from names to values; a name that is absent reads as
  undefined.
\<close>

definition get_field :: "(string \<rightharpoonup> jsval) \<Rightarrow> string \<Rightarrow> jsval" where
  "get_field m k = (case m k of None \<Rightarrow> JUndefined | Some v \<Rightarrow> v)"

text \<open>Whether a key occurs anywhere in a JSON document, at any depth.\<close>

fun has_key :: "string \<Rightarrow> jsval \<Rightarrow> bool" where
  "has_key k (JArr xs) = (\<exists>x \<in> set xs. has_key k x)"
| "has_key k (JObj kvs) = (\<exists>(k', v) \<in> set kvs. k' = k \<or> has_key k v)"
| "has_key k v = False"

text \<open>The values stored under a key anywhere in a JSON document, outermost first.\<close>

fun values_at :: "string \<Rightarrow> jsval \<Rightarrow> jsval list" where
  "values_at k (JArr xs) = concat (map (values_at k) xs)"
| "values_at k (JObj kvs) =
     concat (map (\<lambda>(k', v). (if k' = k then [v] else []) @ values_at k v) kvs)"
| "values_at k v = []"

text \<open>The elements of an array.\<close>

definition elements :: "jsval \<Rightarrow> jsval list" where
  "elements v = (case v of JArr xs \<Rightarrow> xs | _ \<Rightarrow> [])"

text \<open>The keys of an object, in order.\<close>

definition keys_of :: "jsval \<Rightarrow> string list" where
  "keys_of v = (case v of JObj kvs \<Rightarrow> map fst kvs | _ \<Rightarrow> [])"

section \<open>Requests, responses and the libraries\<close>

text \<open>
  What a handler reads of a request: \<^verbatim>\<open>req.cookies\<close> (from \<^verbatim>\<open>cookie-parser\<close>),
  \<^verbatim>\<open>req.params\<close> (the segments of the path that the route names, which Express gives
  as strings) and \<^verbatim>\<open>req.body\<close>. The body is the JSON object that
  \<^verbatim>\<open>express.json()\<close> has parsed, and it may be absent: for a request that carries no
  JSON body Express 4 leaves the empty object, and Express 5 leaves \<^verbatim>\<open>req.body\<close>
  undefined (\<open>None\<close>). The source does not say which Express it runs on.
\<close>

record request =
  cookies :: "string \<rightharpoonup> jsval"
  params :: "string \<rightharpoonup> jsval"
  body :: "(string \<rightharpoonup> jsval) option"

text \<open>
  The value that a request holds under a name of its body: undefined when the body does
  not have the name, and when there is no body.
\<close>

definition body_field :: "request \<Rightarrow> string \<Rightarrow> jsval" where
  "body_field req k = (case body req of None \<Rightarrow> JUndefined | Some b \<Rightarrow> get_field b k)"

text \<open>
  \<^verbatim>\<open>res.cookie("token", token, {httpOnly: true, secure: ...})\<close> and
  \<^verbatim>\<open>res.clearCookie("token")\<close>.
\<close>

datatype cookie_op =
    SetCookie string jsval bool bool
  | ClearCookie string

record response =
  status :: nat
  json :: jsval
  cookie :: "cookie_op option"

definition reply :: "nat \<Rightarrow> jsval \<Rightarrow> response" where
  "reply code v = \<lparr>status = code, json = v, cookie = None\<rparr>"

definition message :: "string \<Rightarrow> jsval" where
  "message m = JObj [(''message'', JStr m)]"

text \<open>
  What is sent when a handler throws outside its \<^verbatim>\<open>try\<close>, as
  \<^verbatim>\<open>const { email } = req.body\<close> does on an undefined body: the promise of the
  \<^verbatim>\<open>async\<close> handler is rejected, and Express 5, the only one to leave a body
  undefined, hands the error to its default error handler, which answers 500 with a page
  that is not JSON.
\<close>

definition uncaught :: response where
  "uncaught = \<lparr>status = 500, json = JUndefined, cookie = None\<rparr>"

text \<open>
  What the handlers take from outside the repository, with a call that throws returning
  \<open>Inl\<close> of the error's message:
  \<^item> \<^verbatim>\<open>jsonwebtoken\<close> with the secret fixed: \<^verbatim>\<open>jwt.verify(token, JWT_SECRET)\<close> and
    \<^verbatim>\<open>jwt.sign(payload, JWT_SECRET, {expiresIn: "12h"})\<close>;
  \<^item> \<^verbatim>\<open>bcrypt\<close>: \<^verbatim>\<open>hash(password, 10)\<close> and \<^verbatim>\<open>compare(password, hash)\<close>;
  \<^item> the clock that stamps new rows, and whether \<^verbatim>\<open>process.env.NODE_ENV\<close> is
    \<^verbatim>\<open>"production"\<close>;
  \<^item> how the ORM and MySQL read a JavaScript value against a column: \<open>sql_text\<close> is the
    text a \<^verbatim>\<open>STRING\<close> or \<^verbatim>\<open>TEXT\<close> column stores for it (or the error of the insert),
    \<open>sql_int\<close> the integer that an insert stores in an integer column for a value
    that is not a number (if it accepts it), \<open>sql_key\<close> the integer that a string
    is equal to in the comparison \<^verbatim>\<open>WHERE id = '...'\<close> (if any), and \<open>sql_where\<close>
    the stored texts that \<^verbatim>\<open>where: {email: v}\<close> selects (or the error of the query).
    An insert and a comparison need not read a string alike: MySQL in strict mode
    compares \<^verbatim>\<open>'1abc'\<close> as 1 and refuses to insert it;
  \<^item> whether the database enforces the foreign keys it has been given, as MySQL does
    unless its \<^verbatim>\<open>foreign_key_checks\<close> variable has been turned off.
\<close>

record env =
  jwt_verify :: "jsval \<Rightarrow> exn + jsval"
  jwt_sign :: "jsval \<Rightarrow> exn + jsval"
  bcrypt_hash :: "jsval \<Rightarrow> exn + string"
  bcrypt_compare :: "jsval \<Rightarrow> jsval \<Rightarrow> exn + bool"
  now :: int
  production :: bool
  sql_text :: "jsval \<Rightarrow> exn + string option"
  sql_int :: "jsval \<Rightarrow> int option"
  sql_key :: "string \<Rightarrow> int option"
  sql_where :: "jsval \<Rightarrow> exn + (string option \<Rightarrow> bool)"
  foreign_key_checks :: bool

section \<open>The database\<close>

text \<open>
  \<^verbatim>\<open>loadSequelize\<close> defines three models. \<^verbatim>\<open>sequelize.define\<close> gives each an
  auto-incremented \<^verbatim>\<open>id\<close> and the \<^verbatim>\<open>createdAt\<close> and \<^verbatim>\<open>updatedAt\<close> stamps;
  \<^verbatim>\<open>Post.belongsTo(User)\<close>, \<^verbatim>\<open>Comment.belongsTo(User)\<close> and
  \<^verbatim>\<open>Comment.belongsTo(Post)\<close> add the nullable foreign keys \<^verbatim>\<open>UserId\<close> and
  \<^verbatim>\<open>PostId\<close>. No column is declared unique but the primary keys. A table is the list
  of its rows in insertion order, with the next value of its counter. The database is
  taken to answer: a lost connection is outside the model, so an ORM call fails here
  only where the value it is given or a foreign key makes it fail. An insert that is
  refused leaves the tables as they were; the value of the counter that it may have used
  up is not modelled.
\<close>

record user_row =
  u_id :: int
  u_username :: "string option"
  u_email :: "string option"
  u_password :: "string option"
  u_createdAt :: int
  u_updatedAt :: int

record post_row =
  p_id :: int
  p_title :: "string option"
  p_content :: "string option"
  p_createdAt :: int
  p_updatedAt :: int
  p_UserId :: "int option"

record comment_row =
  c_id :: int
  c_content :: "string option"
  c_createdAt :: int
  c_updatedAt :: int
  c_UserId :: "int option"
  c_PostId :: "int option"

record db =
  Users :: "user_row list"
  Posts :: "post_row list"
  Comments :: "comment_row list"
  next_User :: int
  next_Post :: int
  next_Comment :: int

definition fresh_db :: db where
  "fresh_db =
     \<lparr>Users = [], Posts = [], Comments = [], next_User = 1, next_Post = 1, next_Comment = 1\<rparr>"

text \<open>
  \<^verbatim>\<open>sequelize.sync(options)\<close>: with \<^verbatim>\<open>force\<close> every table is dropped and created
  again, empty and with its counter back at 1; without it a table that exists is kept as
  it is.
\<close>

definition sync :: "bool \<Rightarrow> db \<Rightarrow> db" where
  "sync force stored = (if force then fresh_db else stored)"

text \<open>
  \<^verbatim>\<open>loadSequelize\<close>: connect, define the models, and \<^verbatim>\<open>sync({force: true})\<close>.
  Whatever is thrown on the way is replaced by one error. The first argument says whether
  the server can be reached; the second is what the database holds when the process
  starts.
\<close>

definition loadSequelize :: "bool \<Rightarrow> db \<Rightarrow> exn + db" where
  "loadSequelize reachable stored =
     (if reachable then Inr (sync True stored)
      else Inl ''Impossible de se connecter a la base de donnees'')"

subsection \<open>Keys\<close>

text \<open>
  The associations of \<^verbatim>\<open>loadSequelize\<close> (\<^verbatim>\<open>User.hasMany(Post)\<close>,
  \<^verbatim>\<open>Post.belongsTo(User)\<close>, \<^verbatim>\<open>User.hasMany(Comment)\<close>,
  \<^verbatim>\<open>Post.hasMany(Comment)\<close>, \<^verbatim>\<open>Comment.belongsTo(User)\<close>,
  \<^verbatim>\<open>Comment.belongsTo(Post)\<close>) are declared with Sequelize's defaults, under which
  \<^verbatim>\<open>sync\<close> creates \<^verbatim>\<open>UserId\<close> and \<^verbatim>\<open>PostId\<close> as nullable columns with a
  \<^verbatim>\<open>FOREIGN KEY ... REFERENCES ... ON DELETE SET NULL ON UPDATE CASCADE\<close> constraint.
  The value written to such a column: undefined and null are stored as NULL; any other
  value must be read as an integer, and where the constraint is enforced that integer
  must be the id of a row of the table referenced (\<open>ids\<close>), or the insert is
  refused.
\<close>

definition column_int :: "env \<Rightarrow> jsval \<Rightarrow> exn + int option" where
  "column_int env v =
     (case v of
        JUndefined \<Rightarrow> Inr None
      | JNull \<Rightarrow> Inr None
      | JNum n \<Rightarrow> Inr (Some n)
      | _ \<Rightarrow>
          (case sql_int env v of
             None \<Rightarrow> Inl ''Incorrect integer value''
           | Some n \<Rightarrow> Inr (Some n)))"

definition fk_value :: "env \<Rightarrow> int list \<Rightarrow> jsval \<Rightarrow> exn + int option" where
  "fk_value env ids v =
     (case column_int env v of
        Inl e \<Rightarrow> Inl e
      | Inr None \<Rightarrow> Inr None
      | Inr (Some n) \<Rightarrow>
          if n \<in> set ids \<or> \<not> foreign_key_checks env then Inr (Some n)
          else Inl ''Cannot add or update a child row: a foreign key constraint fails'')"

text \<open>
  The key \<^verbatim>\<open>findByPk(param)\<close> looks for: no query for undefined and null, a query
  for a number or a string, which the database compares with the ids, an error for
  anything else.
\<close>

definition find_key :: "env \<Rightarrow> jsval \<Rightarrow> exn + int option" where
  "find_key env k =
     (case k of
        JUndefined \<Rightarrow> Inr None
      | JNull \<Rightarrow> Inr None
      | JNum n \<Rightarrow> Inr (Some n)
      | JStr s \<Rightarrow> Inr (sql_key env s)
      | _ \<Rightarrow> Inl ''Argument passed to findByPk is invalid'')"

subsection \<open>The calls the handlers make\<close>

definition User_findAll :: "db \<Rightarrow> user_row list" where
  "User_findAll d = Users d"

definition User_findByPk :: "env \<Rightarrow> db \<Rightarrow> jsval \<Rightarrow> exn + user_row option" where
  "User_findByPk env d k =
     (case find_key env k of
        Inl e \<Rightarrow> Inl e
      | Inr None \<Rightarrow> Inr None
      | Inr (Some n) \<Rightarrow> Inr (find (\<lambda>u. u_id u = n) (Users d)))"

definition User_findOne :: "env \<Rightarrow> db \<Rightarrow> jsval \<Rightarrow> exn + user_row option" where
  "User_findOne env d email =
     (case sql_where env email of
        Inl e \<Rightarrow> Inl e
      | Inr selects \<Rightarrow> Inr (find (\<lambda>u. selects (u_email u)) (Users d)))"

definition User_create :: "env \<Rightarrow> db \<Rightarrow> jsval \<Rightarrow> string \<Rightarrow> exn + user_row \<times> db" where
  "User_create env d email hashedPassword =
     (case sql_text env email of
        Inl e \<Rightarrow> Inl e
      | Inr stored \<Rightarrow>
          (let row = \<lparr>u_id = next_User d, u_username = None, u_email = stored,
                      u_password = Some hashedPassword,
                      u_createdAt = now env, u_updatedAt = now env\<rparr>
           in Inr (row, d\<lparr>Users := Users d @ [row], next_User := next_User d + 1\<rparr>)))"

definition Post_findAll :: "db \<Rightarrow> post_row list" where
  "Post_findAll d = Posts d"

definition Post_findByPk :: "env \<Rightarrow> db \<Rightarrow> jsval \<Rightarrow> exn + post_row option" where
  "Post_findByPk env d k =
     (case find_key env k of
        Inl e \<Rightarrow> Inl e
      | Inr None \<Rightarrow> Inr None
      | Inr (Some n) \<Rightarrow> Inr (find (\<lambda>p. p_id p = n) (Posts d)))"

definition Post_create :: "env \<Rightarrow> db \<Rightarrow> jsval \<Rightarrow> jsval \<Rightarrow> jsval \<Rightarrow> exn + post_row \<times> db" where
  "Post_create env d title content userId =
     (case sql_text env title of
        Inl e \<Rightarrow> Inl e
      | Inr t \<Rightarrow>
          (case sql_text env content of
             Inl e \<Rightarrow> Inl e
           | Inr c \<Rightarrow>
               (case fk_value env (map u_id (Users d)) userId of
                  Inl e \<Rightarrow> Inl e
                | Inr u \<Rightarrow>
                    (let row = \<lparr>p_id = next_Post d, p_title = t, p_content = c,
                                p_createdAt = now env, p_updatedAt = now env, p_UserId = u\<rparr>
                     in Inr (row, d\<lparr>Posts := Posts d @ [row],
                                    next_Post := next_Post d + 1\<rparr>)))))"

text \<open>
  \<^verbatim>\<open>post.destroy()\<close> deletes the row with the post's id; the comments that referred to
  it keep their row, with \<^verbatim>\<open>PostId\<close> set to NULL where the foreign key and its
  \<^verbatim>\<open>ON DELETE SET NULL\<close> rule are enforced.
\<close>

definition Post_destroy :: "env \<Rightarrow> db \<Rightarrow> post_row \<Rightarrow> db" where
  "Post_destroy env d post =
     d\<lparr>Posts := filter (\<lambda>p. p_id p \<noteq> p_id post) (Posts d),
       Comments := map (\<lambda>c. if foreign_key_checks env \<and> c_PostId c = Some (p_id post)
                                then c\<lparr>c_PostId := None\<rparr> else c)
                     (Comments d)\<rparr>"

definition Comment_findByPk :: "env \<Rightarrow> db \<Rightarrow> jsval \<Rightarrow> exn + comment_row option" where
  "Comment_findByPk env d k =
     (case find_key env k of
        Inl e \<Rightarrow> Inl e
      | Inr None \<Rightarrow> Inr None
      | Inr (Some n) \<Rightarrow> Inr (find (\<lambda>c. c_id c = n) (Comments d)))"

definition Comment_create ::
  "env \<Rightarrow> db \<Rightarrow> jsval \<Rightarrow> jsval \<Rightarrow> jsval \<Rightarrow> exn + comment_row \<times> db" where
  "Comment_create env d content postId userId =
     (case sql_text env content of
        Inl e \<Rightarrow> Inl e
      | Inr c \<Rightarrow>
          (case fk_value env (map p_id (Posts d)) postId of
             Inl e \<Rightarrow> Inl e
           | Inr p \<Rightarrow>
               (case fk_value env (map u_id (Users d)) userId of
                  Inl e \<Rightarrow> Inl e
                | Inr u \<Rightarrow>
                    (let row = \<lparr>c_id = next_Comment d, c_content = c,
                                c_createdAt = now env, c_updatedAt = now env,
                                c_UserId = u, c_PostId = p\<rparr>
                     in Inr (row, d\<lparr>Comments := Comments d @ [row],
                                    next_Comment := next_Comment d + 1\<rparr>)))))"

definition Comment_destroy :: "db \<Rightarrow> comment_row \<Rightarrow> db" where
  "Comment_destroy d comment =
     d\<lparr>Comments := filter (\<lambda>c. c_id c \<noteq> c_id comment) (Comments d)\<rparr>"

section \<open>Rows as JSON\<close>

text \<open>
  \<^verbatim>\<open>res.json\<close> of a model instance sends all its attributes. An included model is a
  nested object under the model's name (\<^verbatim>\<open>User\<close>) or an array under its plural
  (\<^verbatim>\<open>Comments\<close>), with the attributes that \<^verbatim>\<open>attributes\<close> selects when given.
  Stamps are sent as numbers here.
\<close>

definition text_json :: "string option \<Rightarrow> jsval" where
  "text_json t = (case t of None \<Rightarrow> JNull | Some s \<Rightarrow> JStr s)"

definition int_json :: "int option \<Rightarrow> jsval" where
  "int_json i = (case i of None \<Rightarrow> JNull | Some n \<Rightarrow> JNum n)"

definition user_attrs :: "user_row \<Rightarrow> (string \<times> jsval) list" where
  "user_attrs u =
     [(''id'', JNum (u_id u)), (''username'', text_json (u_username u)),
      (''email'', text_json (u_email u)), (''password'', text_json (u_password u)),
      (''createdAt'', JNum (u_createdAt u)), (''updatedAt'', JNum (u_updatedAt u))]"

definition post_attrs :: "post_row \<Rightarrow> (string \<times> jsval) list" where
  "post_attrs p =
     [(''id'', JNum (p_id p)), (''title'', text_json (p_title p)),
      (''content'', text_json (p_content p)),
      (''createdAt'', JNum (p_createdAt p)), (''updatedAt'', JNum (p_updatedAt p)),
      (''UserId'', int_json (p_UserId p))]"

definition comment_attrs :: "comment_row \<Rightarrow> (string \<times> jsval) list" where
  "comment_attrs c =
     [(''id'', JNum (c_id c)), (''content'', text_json (c_content c)),
      (''createdAt'', JNum (c_createdAt c)), (''updatedAt'', JNum (c_updatedAt c)),
      (''UserId'', int_json (c_UserId c)), (''PostId'', int_json (c_PostId c))]"

text \<open>
  \<^verbatim>\<open>res.json\<close> of the instance that \<^verbatim>\<open>create\<close> returns. The row is not read back
  from the database: the instance holds the new id, the values that were passed to
  \<^verbatim>\<open>create\<close> as they were passed (a \<^verbatim>\<open>PostId\<close> taken from the path is still a
  string) and the two stamps, and \<^verbatim>\<open>JSON.stringify\<close> leaves out what is undefined.
\<close>

definition created_json :: "env \<Rightarrow> int \<Rightarrow> (string \<times> jsval) list \<Rightarrow> jsval" where
  "created_json env new_id given =
     JObj ((''id'', JNum new_id) # filter (\<lambda>kv. snd kv \<noteq> JUndefined) given
           @ [(''updatedAt'', JNum (now env)), (''createdAt'', JNum (now env))])"

text \<open>\<^verbatim>\<open>{model: User, attributes: ["id", "email"]}\<close>: the row the key refers to, or null.\<close>

definition include_User :: "db \<Rightarrow> int option \<Rightarrow> jsval" where
  "include_User d k =
     (case k of
        None \<Rightarrow> JNull
      | Some n \<Rightarrow>
          (case find (\<lambda>u. u_id u = n) (Users d) of
             None \<Rightarrow> JNull
           | Some u \<Rightarrow> JObj [(''id'', JNum (u_id u)), (''email'', text_json (u_email u))]))"

text \<open>\<^verbatim>\<open>{model: Comment, include: [{model: User, attributes: ["id", "email"]}]}\<close>.\<close>

definition include_Comments :: "db \<Rightarrow> post_row \<Rightarrow> jsval" where
  "include_Comments d p =
     JArr (map (\<lambda>c. JObj (comment_attrs c @ [(''User'', include_User d (c_UserId c))]))
             (filter (\<lambda>c. c_PostId c = Some (p_id p)) (Comments d)))"

section \<open>The authentication middleware\<close>

text \<open>
  \<^verbatim>\<open>isLoggedInJWT\<close> answers 401 when \<^verbatim>\<open>req.cookies.token\<close> is falsy, 403 when
  anything in its \<^verbatim>\<open>try\<close> block throws, and otherwise sets \<^verbatim>\<open>req.user.id\<close> to the
  payload's \<^verbatim>\<open>userId\<close> and calls \<^verbatim>\<open>next()\<close>: \<open>Inr\<close> of that id. The messages
  are written without their accents.
\<close>

definition isLoggedInJWT :: "env \<Rightarrow> request \<Rightarrow> response + jsval" where
  "isLoggedInJWT env req =
     (let token = get_field (cookies req) ''token'' in
      if falsy token then Inl (reply 401 (message ''Acces refuse. Veuillez vous connecter.''))
      else
        (case jwt_verify env token of
           Inl e \<Rightarrow> Inl (reply 403 (message ''Token invalide ou expire.''))
         | Inr decoded \<Rightarrow>
             (case get_prop decoded ''userId'' of
                Inl e \<Rightarrow> Inl (reply 403 (message ''Token invalide ou expire.''))
              | Inr userId \<Rightarrow> Inr userId)))"

text \<open>
  A route declared as \<^verbatim>\<open>app.post(path, isLoggedInJWT, handler)\<close>: the handler is
  given the id the middleware has set, and is not called when the middleware answers.
\<close>

definition guarded ::
  "env \<Rightarrow> (jsval \<Rightarrow> db \<Rightarrow> request \<Rightarrow> response \<times> db) \<Rightarrow> db \<Rightarrow> request \<Rightarrow> response \<times> db" where
  "guarded env handler d req =
     (case isLoggedInJWT env req of
        Inl refusal \<Rightarrow> (refusal, d)
      | Inr userId \<Rightarrow> handler userId d req)"

section \<open>The routes\<close>

text \<open>\<^verbatim>\<open>GET /users\<close>\<close>

definition get_users :: "db \<Rightarrow> request \<Rightarrow> response \<times> db" where
  "get_users d req = (reply 200 (JArr (map (\<lambda>u. JObj (user_attrs u)) (User_findAll d))), d)"

text \<open>
  \<^verbatim>\<open>POST /register\<close>. The three fields are taken out of \<^verbatim>\<open>req.body\<close> before the
  \<^verbatim>\<open>try\<close>.
\<close>

definition post_register :: "env \<Rightarrow> db \<Rightarrow> request \<Rightarrow> response \<times> db" where
  "post_register env d req =
     (case body req of
        None \<Rightarrow> (uncaught, d)
      | Some b \<Rightarrow>
          (let email = get_field b ''email'';
               password = get_field b ''password'';
               verifiedPassword = get_field b ''verifiedPassword''
           in
           if falsy email \<or> falsy password \<or> falsy verifiedPassword then
             (reply 400
                (message ''Email, mot de passe et la verification du mot de passe sont requis''),
              d)
           else if \<not> strict_eq password verifiedPassword then
             (reply 400 (message ''Mot de passe ne correspond pas''), d)
           else
             (case bcrypt_hash env password of
                Inl e \<Rightarrow>
                  (reply 500
                     (JObj [(''message'', JStr ''Erreur lors de la creation de l utilisateur''),
                            (''error'', JStr e)]), d)
              | Inr hashedPassword \<Rightarrow>
                  (case User_create env d email hashedPassword of
                     Inl e \<Rightarrow>
                       (reply 500
                          (JObj [(''message'',
                                  JStr ''Erreur lors de la creation de l utilisateur''),
                                 (''error'', JStr e)]), d)
                   | Inr (newUser, d') \<Rightarrow>
                       (reply 201
                          (JObj [(''message'', JStr ''Utilisateur enregistrer avec succes''),
                                 (''userId'', JNum (u_id newUser))]), d')))))"

text \<open>
  \<^verbatim>\<open>POST /login\<close>. The two fields are taken out of \<^verbatim>\<open>req.body\<close> before the
  \<^verbatim>\<open>try\<close>.
\<close>

definition post_login :: "env \<Rightarrow> db \<Rightarrow> request \<Rightarrow> response \<times> db" where
  "post_login env d req =
     (case body req of
        None \<Rightarrow> (uncaught, d)
      | Some b \<Rightarrow>
          (let email = get_field b ''email'';
               password = get_field b ''password''
           in
           if falsy email \<or> falsy password then
             (reply 400 (message ''Email et mot de passe sont requis''), d)
           else
             (case User_findOne env d email of
                Inl e \<Rightarrow>
                  (reply 500
                     (JObj [(''message'', JStr ''Erreur de connexion''), (''error'', JStr e)]), d)
              | Inr None \<Rightarrow> (reply 401 (message ''Email ou mot de passe invalide''), d)
              | Inr (Some user) \<Rightarrow>
                  (case bcrypt_compare env password (text_json (u_password user)) of
                     Inl e \<Rightarrow>
                       (reply 500
                          (JObj [(''message'', JStr ''Erreur de connexion''),
                                 (''error'', JStr e)]), d)
                   | Inr isMatch \<Rightarrow>
                       if \<not> isMatch then
                         (reply 401 (message ''Email ou mot de passe invalide''), d)
                       else
                         (case jwt_sign env (JObj [(''userId'', JNum (u_id user))]) of
                            Inl e \<Rightarrow>
                              (reply 500
                                 (JObj [(''message'', JStr ''Erreur de connexion''),
                                        (''error'', JStr e)]), d)
                          | Inr token \<Rightarrow>
                              (\<lparr>status = 200, json = message ''connexion avec succes'',
                                cookie =
                                  Some (SetCookie ''token'' token True (production env))\<rparr>,
                               d))))))"

text \<open>\<^verbatim>\<open>POST /logout\<close>\<close>

definition post_logout :: "db \<Rightarrow> request \<Rightarrow> response \<times> db" where
  "post_logout d req =
     (\<lparr>status = 200, json = message ''Deconnexion reussi'',
       cookie = Some (ClearCookie ''token'')\<rparr>, d)"

text \<open>
  \<^verbatim>\<open>POST /post\<close>, behind the middleware. The body is read inside the \<^verbatim>\<open>try\<close>:
  \<^verbatim>\<open>newPostData.title\<close> on an undefined body goes to the \<^verbatim>\<open>catch\<close>.
\<close>

definition post_post :: "env \<Rightarrow> jsval \<Rightarrow> db \<Rightarrow> request \<Rightarrow> response \<times> db" where
  "post_post env userId d req =
     (case body req of
        None \<Rightarrow>
          (reply 500 (JObj [(''error'', JStr ''Erreur lors de la creation du post'')]), d)
      | Some newPostData \<Rightarrow>
          (let title = get_field newPostData ''title'';
               content = get_field newPostData ''content''
           in
           case Post_create env d title content userId of
             Inl e \<Rightarrow>
               (reply 500 (JObj [(''error'', JStr ''Erreur lors de la creation du post'')]), d)
           | Inr (newPost, d') \<Rightarrow>
               (reply 200
                  (created_json env (p_id newPost)
                     [(''title'', title), (''content'', content), (''UserId'', userId)]),
                d')))"

text \<open>
  \<^verbatim>\<open>POST /posts/:postId/comments\<close>, behind the middleware. \<^verbatim>\<open>content\<close> is taken
  out of \<^verbatim>\<open>req.body\<close> before the \<^verbatim>\<open>try\<close>.
\<close>

definition post_comment :: "env \<Rightarrow> jsval \<Rightarrow> db \<Rightarrow> request \<Rightarrow> response \<times> db" where
  "post_comment env userId d req =
     (let postId = get_field (params req) ''postId'' in
      case body req of
        None \<Rightarrow> (uncaught, d)
      | Some b \<Rightarrow>
          (let content = get_field b ''content'' in
           case Post_findByPk env d postId of
             Inl e \<Rightarrow> (reply 500 (message ''Erreur lors de la creation du commentaire''), d)
           | Inr None \<Rightarrow> (reply 404 (message ''Post non trouve''), d)
           | Inr (Some post) \<Rightarrow>
               (case Comment_create env d content postId userId of
                  Inl e \<Rightarrow>
                    (reply 500 (message ''Erreur lors de la creation du commentaire''), d)
                | Inr (newComment, d') \<Rightarrow>
                    (reply 201
                       (created_json env (c_id newComment)
                          [(''content'', content), (''PostId'', postId), (''UserId'', userId)]),
                     d'))))"

text \<open>\<^verbatim>\<open>GET /posts\<close>\<close>

definition get_posts :: "db \<Rightarrow> request \<Rightarrow> response \<times> db" where
  "get_posts d req =
     (reply 200
        (JArr (map (\<lambda>p. JObj (post_attrs p @
                               [(''User'', include_User d (p_UserId p)),
                                (''Comments'', include_Comments d p)]))
                 (Post_findAll d))), d)"

text \<open>\<^verbatim>\<open>GET /users/:userId/posts\<close>\<close>

definition get_user_posts :: "env \<Rightarrow> db \<Rightarrow> request \<Rightarrow> response \<times> db" where
  "get_user_posts env d req =
     (let userId = get_field (params req) ''userId'' in
      case User_findByPk env d userId of
        Inl e \<Rightarrow>
          (reply 500
             (message ''Erreur lors de la recuperation des posts de l'utilisateur''), d)
      | Inr None \<Rightarrow> (reply 404 (message ''Utilisateur non trouve''), d)
      | Inr (Some user) \<Rightarrow>
          (reply 200
             (JArr (map (\<lambda>p. JObj (post_attrs p @ [(''Comments'', include_Comments d p)]))
                      (filter (\<lambda>p. p_UserId p = Some (u_id user)) (Posts d)))), d))"

text \<open>
  \<^verbatim>\<open>DELETE /posts/:postId\<close>, behind the middleware. \<^verbatim>\<open>postId\<close> is taken out of
  \<^verbatim>\<open>req.body\<close> before the \<^verbatim>\<open>try\<close>.
\<close>

definition delete_post :: "env \<Rightarrow> jsval \<Rightarrow> db \<Rightarrow> request \<Rightarrow> response \<times> db" where
  "delete_post env userId d req =
     (case body req of
        None \<Rightarrow> (uncaught, d)
      | Some b \<Rightarrow>
          (let postId = get_field b ''postId'' in
           case Post_findByPk env d postId of
             Inl e \<Rightarrow> (reply 500 (message ''Erreur lors de la suppression du post''), d)
           | Inr None \<Rightarrow> (reply 404 (message ''Post non trouve''), d)
           | Inr (Some post) \<Rightarrow>
               if \<not> strict_eq (int_json (p_UserId post)) userId then
                 (reply 403 (message ''Action interdite''), d)
               else
                 (reply 200 (message ''Post supprime avec succes''), Post_destroy env d post)))"

text \<open>\<^verbatim>\<open>DELETE /comments/:commentId\<close>, behind the middleware.\<close>

definition delete_comment :: "env \<Rightarrow> jsval \<Rightarrow> db \<Rightarrow> request \<Rightarrow> response \<times> db" where
  "delete_comment env userId d req =
     (let commentId = get_field (params req) ''commentId'' in
      case Comment_findByPk env d commentId of
        Inl e \<Rightarrow> (reply 500 (message ''Erreur lors de la suppression du commentaire''), d)
      | Inr None \<Rightarrow> (reply 404 (message ''Commentaire non trouve''), d)
      | Inr (Some comment) \<Rightarrow>
          if \<not> strict_eq (int_json (c_UserId comment)) userId then
            (reply 403 (message ''Action interdite''), d)
          else
            (reply 200 (message ''Commentaire supprime avec succes''),
             Comment_destroy d comment))"

text \<open>The routes of \<^verbatim>\<open>main\<close>, and the application as a function of the route matched.\<close>

datatype route =
    GET_users
  | POST_register
  | POST_login
  | POST_logout
  | POST_post
  | POST_posts_comments
  | GET_posts
  | GET_users_posts
  | DELETE_posts
  | DELETE_comments

fun app :: "env \<Rightarrow> route \<Rightarrow> db \<Rightarrow> request \<Rightarrow> response \<times> db" where
  "app env GET_users = get_users"
| "app env POST_register = post_register env"
| "app env POST_login = post_login env"
| "app env POST_logout = post_logout"
| "app env POST_post = guarded env (post_post env)"
| "app env POST_posts_comments = guarded env (post_comment env)"
| "app env GET_posts = get_posts"
| "app env GET_users_posts = get_user_posts env"
| "app env DELETE_posts = guarded env (delete_post env)"
| "app env DELETE_comments = guarded env (delete_comment env)"

text \<open>
  \<^verbatim>\<open>main\<close> loads the database before it declares any route: the server listens on
  the database that \<^verbatim>\<open>loadSequelize\<close> returns, and does not start when it throws.
\<close>

definition main :: "bool \<Rightarrow> db \<Rightarrow> db option" where
  "main reachable stored =
     (case loadSequelize reachable stored of Inl e \<Rightarrow> None | Inr sequelize \<Rightarrow> Some sequelize)"

section \<open>An environment to run the handlers in\<close>

text \<open>
  A stand-in for the libraries, for running the handlers on examples: the tokens of two
  users, a hash that prefixes the password, text columns and conditions that take
  strings, integer columns that take decimal digits only, and foreign keys enforced.
\<close>

definition digit_of :: "char \<Rightarrow> int option" where
  "digit_of c = map_of (zip ''0123456789'' [0, 1, 2, 3, 4, 5, 6, 7, 8, 9]) c"

fun decimal :: "int \<Rightarrow> string \<Rightarrow> int option" where
  "decimal acc [] = Some acc"
| "decimal acc (c # cs) =
     (case digit_of c of None \<Rightarrow> None | Some v \<Rightarrow> decimal (10 * acc + v) cs)"

definition sample_verify :: "jsval \<Rightarrow> exn + jsval" where
  "sample_verify token =
     (if falsy token then Inl ''jwt must be provided''
      else if token = JStr ''token-of-1'' then Inr (JObj [(''userId'', JNum 1)])
      else if token = JStr ''token-of-2'' then Inr (JObj [(''userId'', JNum 2)])
      else Inl ''invalid token'')"

definition sample_sign :: "jsval \<Rightarrow> exn + jsval" where
  "sample_sign payload =
     (if payload = JObj [(''userId'', JNum 1)] then Inr (JStr ''token-of-1'')
      else if payload = JObj [(''userId'', JNum 2)] then Inr (JStr ''token-of-2'')
      else Inl ''no token for this payload'')"

definition sample_hash :: "jsval \<Rightarrow> exn + string" where
  "sample_hash password =
     (case password of
        JStr s \<Rightarrow> Inr (''hash:'' @ s)
      | _ \<Rightarrow> Inl ''data must be a string'')"

definition sample_compare :: "jsval \<Rightarrow> jsval \<Rightarrow> exn + bool" where
  "sample_compare password hash =
     (case (password, hash) of
        (JStr s, JStr h) \<Rightarrow> Inr (h = ''hash:'' @ s)
      | _ \<Rightarrow> Inl ''data and hash must be strings'')"

definition sample_text :: "jsval \<Rightarrow> exn + string option" where
  "sample_text v =
     (case v of
        JUndefined \<Rightarrow> Inr None
      | JNull \<Rightarrow> Inr None
      | JStr s \<Rightarrow> Inr (Some s)
      | _ \<Rightarrow> Inl ''string violation'')"

definition sample_int :: "jsval \<Rightarrow> int option" where
  "sample_int v = (case v of JStr s \<Rightarrow> (if s = [] then None else decimal 0 s) | _ \<Rightarrow> None)"

text \<open>
  A comparison reads the digits that a string starts with, and 0 when it starts with
  none.
\<close>

definition sample_key :: "string \<Rightarrow> int option" where
  "sample_key s = decimal 0 (takeWhile (\<lambda>c. digit_of c \<noteq> None) s)"

definition sample_where :: "jsval \<Rightarrow> exn + (string option \<Rightarrow> bool)" where
  "sample_where v =
     (case v of
        JStr s \<Rightarrow> Inr (\<lambda>stored. stored = Some s)
      | _ \<Rightarrow> Inl ''Invalid value'')"

definition sample_env :: env where
  "sample_env =
     \<lparr>jwt_verify = sample_verify, jwt_sign = sample_sign, bcrypt_hash = sample_hash,
      bcrypt_compare = sample_compare, now = 0, production = False,
      sql_text = sample_text, sql_int = sample_int, sql_key = sample_key,
      sql_where = sample_where,
      foreign_key_checks = True\<rparr>"

text \<open>A request with the given cookies, path parameters and body.\<close>

definition request_of ::
  "(string \<times> jsval) list \<Rightarrow> (string \<times> jsval) list \<Rightarrow> (string \<times> jsval) list \<Rightarrow> request" where
  "request_of cs ps bs = \<lparr>cookies = map_of cs, params = map_of ps, body = Some (map_of bs)\<rparr>"

text \<open>A request with the given cookies and path parameters, and no body.\<close>

definition request_without_body ::
  "(string \<times> jsval) list \<Rightarrow> (string \<times> jsval) list \<Rightarrow> request" where
  "request_without_body cs ps = \<lparr>cookies = map_of cs, params = map_of ps, body = None\<rparr>"

text \<open>
  A database as the routes leave it: two users, a post of each, and a comment of the
  first user on their own post.
\<close>

definition first_user :: user_row where
  "first_user =
     \<lparr>u_id = 1, u_username = None, u_email = Some ''a@x.com'',
      u_password = Some ''hash:p1'', u_createdAt = 0, u_updatedAt = 0\<rparr>"

definition second_user :: user_row where
  "second_user =
     \<lparr>u_id = 2, u_username = None, u_email = Some ''b@x.com'',
      u_password = Some ''hash:p2'', u_createdAt = 0, u_updatedAt = 0\<rparr>"

definition first_post :: post_row where
  "first_post =
     \<lparr>p_id = 1, p_title = Some ''t'', p_content = Some ''c'',
      p_createdAt = 0, p_updatedAt = 0, p_UserId = Some 1\<rparr>"

definition second_post :: post_row where
  "second_post =
     \<lparr>p_id = 2, p_title = Some ''t2'', p_content = Some ''c2'',
      p_createdAt = 0, p_updatedAt = 0, p_UserId = Some 2\<rparr>"

definition first_comment :: comment_row where
  "first_comment =
     \<lparr>c_id = 1, c_content = Some ''hello'', c_createdAt = 0, c_updatedAt = 0,
      c_UserId = Some 1, c_PostId = Some 1\<rparr>"

definition sample_db :: db where
  "sample_db =
     \<lparr>Users = [first_user, second_user], Posts = [first_post, second_post],
      Comments = [first_comment], next_User = 3, next_Post = 3, next_Comment = 2\<rparr>"

text \<open>
  A database after a restart: the tables were emptied, one user has registered since and
  has written one post. A token signed for the second user before the restart still
  verifies.
\<close>

definition restarted_db :: db where
  "restarted_db =
     \<lparr>Users = [first_user], Posts = [first_post], Comments = [],
      next_User = 2, next_Post = 2, next_Comment = 1\<rparr>"

text \<open>The database after a list of requests, served one after the other.\<close>

fun serve :: "env \<Rightarrow> db \<Rightarrow> (route \<times> request) list \<Rightarrow> db" where
  "serve env d [] = d"
| "serve env d ((r, req) # rest) = serve env (snd (app env r d req)) rest"

section \<open>Auxiliary facts\<close>

lemmas sample_defs =
  sample_env_def sample_verify_def sample_sign_def sample_hash_def sample_compare_def
  sample_text_def sample_int_def sample_key_def sample_where_def digit_of_def
  request_of_def request_without_body_def
  sample_db_def restarted_db_def first_user_def second_user_def first_post_def
  second_post_def first_comment_def fresh_db_def

lemmas route_defs =
  guarded_def isLoggedInJWT_def post_register_def post_login_def post_post_def
  post_comment_def User_create_def User_findOne_def Post_create_def Comment_create_def
  Post_findByPk_def fk_value_def column_int_def find_key_def get_field_def get_prop_def
  body_field_def created_json_def uncaught_def reply_def Let_def

text \<open>
  The sample databases arise from requests: the first from five requests to an empty
  database; the second from a start of the process on the first, which empties it, and
  two requests, while the token that the second user was given at login before the
  restart is still the one \<^verbatim>\<open>jwt.verify\<close> accepts.
\<close>

lemma sample_db_reachable:
  "serve sample_env fresh_db
     [(POST_register, request_of [] [] [(''email'', JStr ''a@x.com''),
         (''password'', JStr ''p1''), (''verifiedPassword'', JStr ''p1'')]),
      (POST_register, request_of [] [] [(''email'', JStr ''b@x.com''),
         (''password'', JStr ''p2''), (''verifiedPassword'', JStr ''p2'')]),
      (POST_post, request_of [(''token'', JStr ''token-of-1'')] []
         [(''title'', JStr ''t''), (''content'', JStr ''c'')]),
      (POST_post, request_of [(''token'', JStr ''token-of-2'')] []
         [(''title'', JStr ''t2''), (''content'', JStr ''c2'')]),
      (POST_posts_comments, request_of [(''token'', JStr ''token-of-1'')]
         [(''postId'', JStr ''1'')] [(''content'', JStr ''hello'')])]
   = sample_db"
  by (simp add: route_defs sample_defs)

lemma restarted_db_reachable:
  "cookie (fst (app sample_env POST_login sample_db
      (request_of [] [] [(''email'', JStr ''b@x.com''), (''password'', JStr ''p2'')])))
     = Some (SetCookie ''token'' (JStr ''token-of-2'') True False)
   \<and> main True sample_db = Some fresh_db
   \<and> serve sample_env fresh_db
       [(POST_register, request_of [] [] [(''email'', JStr ''a@x.com''),
           (''password'', JStr ''p1''), (''verifiedPassword'', JStr ''p1'')]),
        (POST_post, request_of [(''token'', JStr ''token-of-1'')] []
           [(''title'', JStr ''t''), (''content'', JStr ''c'')])]
     = restarted_db"
  by (simp add: route_defs main_def loadSequelize_def sync_def text_json_def sample_defs)

lemma strict_eq_imp_eq: "strict_eq a b \<Longrightarrow> a = b"
  by (cases a; cases b) auto

lemma find_Some_mem: "find P xs = Some x \<Longrightarrow> x \<in> set xs"
  by (auto simp: find_Some_iff)

lemma Post_findByPk_mem:
  "Post_findByPk env d k = Inr (Some post) \<Longrightarrow> post \<in> set (Posts d)"
  by (auto simp: Post_findByPk_def split: sum.splits option.splits dest: find_Some_mem)

lemma Comment_findByPk_mem:
  "Comment_findByPk env d k = Inr (Some c) \<Longrightarrow> c \<in> set (Comments d)"
  by (auto simp: Comment_findByPk_def split: sum.splits option.splits dest: find_Some_mem)

lemma isLoggedInJWT_params:
  "isLoggedInJWT env (req\<lparr>params := ps\<rparr>) = isLoggedInJWT env req"
  by (simp add: isLoggedInJWT_def)

lemma delete_post_params:
  "delete_post env userId d (req\<lparr>params := ps\<rparr>) = delete_post env userId d req"
  by (simp add: delete_post_def)

lemma post_register_created:
  assumes "\<not> falsy (body_field req ''email'')"
      and "\<not> falsy (body_field req ''password'')"
      and "strict_eq (body_field req ''password'') (body_field req ''verifiedPassword'')"
      and "bcrypt_hash env (body_field req ''password'') = Inr h"
      and "sql_text env (body_field req ''email'') = Inr stored"
  shows "post_register env d req
           = (reply 201 (JObj [(''message'', JStr ''Utilisateur enregistrer avec succes''),
                               (''userId'', JNum (next_User d))]),
              d\<lparr>Users := Users d @ [\<lparr>u_id = next_User d, u_username = None, u_email = stored,
                                      u_password = Some h,
                                      u_createdAt = now env, u_updatedAt = now env\<rparr>],
                next_User := next_User d + 1\<rparr>)"
proof -
  from assms(1) obtain b where b: "body req = Some b"
    by (cases "body req") (simp_all add: body_field_def)
  from assms(2,3) have "\<not> falsy (body_field req ''verifiedPassword'')"
    using strict_eq_imp_eq by fastforce
  with assms b show ?thesis
    by (simp add: post_register_def User_create_def Let_def body_field_def)
qed

lemma has_key_text_json [simp]: "\<not> has_key k (text_json t)"
  by (simp add: text_json_def split: option.splits)

lemma has_key_int_json [simp]: "\<not> has_key k (int_json i)"
  by (simp add: int_json_def split: option.splits)

lemma values_at_text_json [simp]: "values_at k (text_json t) = []"
  by (simp add: text_json_def split: option.splits)

lemma values_at_int_json [simp]: "values_at k (int_json i) = []"
  by (simp add: int_json_def split: option.splits)

lemma include_User_shape:
  "include_User d k = JNull \<or> keys_of (include_User d k) = [''id'', ''email'']"
  by (simp add: include_User_def keys_of_def split: option.splits)

lemma has_key_include_User [simp]: "\<not> has_key ''password'' (include_User d k)"
  by (simp add: include_User_def split: option.splits)

lemma values_at_include_User [simp]: "values_at ''User'' (include_User d k) = []"
  by (simp add: include_User_def split: option.splits)

lemma has_key_include_Comments [simp]: "\<not> has_key ''password'' (include_Comments d p)"
  by (simp add: include_Comments_def comment_attrs_def)

lemma values_at_include_Comments:
  "set (values_at ''User'' (include_Comments d p)) \<subseteq> range (include_User d)"
  by (auto simp: include_Comments_def comment_attrs_def)

section \<open>Deleting what another user owns\<close>

text \<open>
  C1. A \<^verbatim>\<open>DELETE /posts/:postId\<close> or \<^verbatim>\<open>DELETE /comments/:commentId\<close> request passes
  the middleware with the user id of its token; when the row that the handler finds
  has another \<^verbatim>\<open>UserId\<close>, the answer is 403, the database is the one before the
  request (\<^verbatim>\<open>destroy\<close> is not reached) and the row is still in its table.
\<close>

theorem delete_not_owner_forbidden:
  assumes "isLoggedInJWT env req = Inr userId"
  shows "(Post_findByPk env d (body_field req ''postId'') = Inr (Some post)
            \<and> int_json (p_UserId post) \<noteq> userId
          \<longrightarrow> status (fst (app env DELETE_posts d req)) = 403
              \<and> snd (app env DELETE_posts d req) = d
              \<and> post \<in> set (Posts (snd (app env DELETE_posts d req))))
       \<and> (Comment_findByPk env d (get_field (params req) ''commentId'') = Inr (Some comment)
            \<and> int_json (c_UserId comment) \<noteq> userId
          \<longrightarrow> status (fst (app env DELETE_comments d req)) = 403
              \<and> snd (app env DELETE_comments d req) = d
              \<and> comment \<in> set (Comments (snd (app env DELETE_comments d req))))"
proof (intro conjI impI)
  assume h: "Post_findByPk env d (body_field req ''postId'') = Inr (Some post)
               \<and> int_json (p_UserId post) \<noteq> userId"
  then have ne: "\<not> strict_eq (int_json (p_UserId post)) userId"
    using strict_eq_imp_eq by blast
  from h obtain b where b: "body req = Some b"
    by (cases "body req") (simp_all add: body_field_def Post_findByPk_def find_key_def)
  with h have found: "Post_findByPk env d (get_field b ''postId'') = Inr (Some post)"
    by (simp add: body_field_def)
  from found b ne assms show "status (fst (app env DELETE_posts d req)) = 403"
    by (simp add: guarded_def delete_post_def reply_def)
  from found b ne assms show same: "snd (app env DELETE_posts d req) = d"
    by (simp add: guarded_def delete_post_def)
  from h show "post \<in> set (Posts (snd (app env DELETE_posts d req)))"
    unfolding same using Post_findByPk_mem by blast
next
  assume h: "Comment_findByPk env d (get_field (params req) ''commentId'') = Inr (Some comment)
               \<and> int_json (c_UserId comment) \<noteq> userId"
  then have ne: "\<not> strict_eq (int_json (c_UserId comment)) userId"
    using strict_eq_imp_eq by blast
  from h ne assms show "status (fst (app env DELETE_comments d req)) = 403"
    by (simp add: guarded_def delete_comment_def reply_def)
  from h ne assms show same: "snd (app env DELETE_comments d req) = d"
    by (simp add: guarded_def delete_comment_def)
  from h show "comment \<in> set (Comments (snd (app env DELETE_comments d req)))"
    unfolding same using Comment_findByPk_mem by blast
qed

text \<open>
  The second user, with a token of their own, asks to delete the first user's post
  (named in the body) and the first user's comment (named in the path).
\<close>

theorem delete_not_owner_forbidden_witness:
  "isLoggedInJWT sample_env
       (request_of [(''token'', JStr ''token-of-2'')] [(''commentId'', JStr ''1'')]
          [(''postId'', JNum 1)]) = Inr (JNum 2)
   \<and> Post_findByPk sample_env sample_db (JNum 1) = Inr (Some first_post)
   \<and> int_json (p_UserId first_post) \<noteq> JNum 2
   \<and> status (fst (app sample_env DELETE_posts sample_db
        (request_of [(''token'', JStr ''token-of-2'')] [(''commentId'', JStr ''1'')]
           [(''postId'', JNum 1)]))) = 403
   \<and> first_post \<in> set (Posts (snd (app sample_env DELETE_posts sample_db
        (request_of [(''token'', JStr ''token-of-2'')] [(''commentId'', JStr ''1'')]
           [(''postId'', JNum 1)]))))
   \<and> Comment_findByPk sample_env sample_db (JStr ''1'') = Inr (Some first_comment)
   \<and> int_json (c_UserId first_comment) \<noteq> JNum 2
   \<and> status (fst (app sample_env DELETE_comments sample_db
        (request_of [(''token'', JStr ''token-of-2'')] [(''commentId'', JStr ''1'')]
           [(''postId'', JNum 1)]))) = 403
   \<and> first_comment \<in> set (Comments (snd (app sample_env DELETE_comments sample_db
        (request_of [(''token'', JStr ''token-of-2'')] [(''commentId'', JStr ''1'')]
           [(''postId'', JNum 1)]))))"
proof -
  let ?req = "request_of [(''token'', JStr ''token-of-2'')] [(''commentId'', JStr ''1'')]
                [(''postId'', JNum 1)]"
  have auth: "isLoggedInJWT sample_env ?req = Inr (JNum 2)"
    by (simp add: isLoggedInJWT_def get_field_def get_prop_def sample_defs)
  have post: "Post_findByPk sample_env sample_db (body_field ?req ''postId'')
                = Inr (Some first_post)"
    by (simp add: Post_findByPk_def find_key_def get_field_def body_field_def sample_defs)
  have comment: "Comment_findByPk sample_env sample_db (get_field (params ?req) ''commentId'')
                = Inr (Some first_comment)"
    by (simp add: Comment_findByPk_def find_key_def get_field_def sample_defs)
  have other: "int_json (p_UserId first_post) \<noteq> JNum 2"
              "int_json (c_UserId first_comment) \<noteq> JNum 2"
    by (simp_all add: int_json_def first_post_def first_comment_def)
  have fields: "body_field ?req ''postId'' = JNum 1"
               "get_field (params ?req) ''commentId'' = JStr ''1''"
    by (simp_all add: body_field_def get_field_def request_of_def)
  from delete_not_owner_forbidden [OF auth, of sample_db first_post first_comment]
       auth post comment other fields
  show ?thesis by (simp add: sample_db_def)
qed

section \<open>Registration\<close>

text \<open>
  Where the request has a body, a field that is missing from it or falsy, or a password
  that differs from its verification, is answered 400 before anything is hashed or
  written.
\<close>

lemma post_register_invalid_fields:
  assumes "body req = Some b"
      and "falsy (get_field b ''email'') \<or> falsy (get_field b ''password'')
           \<or> falsy (get_field b ''verifiedPassword'')
           \<or> \<not> strict_eq (get_field b ''password'') (get_field b ''verifiedPassword'')"
  shows "status (fst (post_register env d req)) = 400 \<and> snd (post_register env d req) = d"
  using assms by (auto simp: post_register_def reply_def Let_def)

text \<open>
  C5. The claim fails of a request that has no body: all three fields are missing
  from it, the handler takes them out of
  \<^verbatim>\<open>req.body\<close> before its \<^verbatim>\<open>try\<close>, and where \<^verbatim>\<open>req.body\<close> is undefined the
  answer is the 500 of an error that nothing catches, not the 400 that the same handler
  gives to the empty object. No row is written in either case. This holds whatever the
  libraries, the database, the cookies and the path are.
\<close>

theorem register_without_body_500:
  "body_field (request_without_body cs ps) ''email'' = JUndefined
   \<and> status (fst (post_register env d (request_without_body cs ps))) = 500
   \<and> snd (post_register env d (request_without_body cs ps)) = d
   \<and> body_field (request_of cs ps []) ''email'' = JUndefined
   \<and> status (fst (post_register env d (request_of cs ps []))) = 400
   \<and> snd (post_register env d (request_of cs ps [])) = d"
  by (simp add: post_register_def uncaught_def body_field_def get_field_def reply_def
        request_of_def request_without_body_def)

text \<open>
  C3, as the claim states it, fails: \<^verbatim>\<open>sequelize.define("User", ...)\<close> declares
  \<^verbatim>\<open>email\<close> as a plain \<^verbatim>\<open>STRING\<close>, with no unique constraint, and the handler does not
  look for the address before it inserts. Registering the same address twice on an
  empty database is answered 201 both times and leaves two rows with that address.
\<close>

theorem register_same_email_twice_counterexample:
  "status (fst (post_register sample_env fresh_db
      (request_of [] [] [(''email'', JStr ''a@x.com''), (''password'', JStr ''p1''),
         (''verifiedPassword'', JStr ''p1'')]))) = 201
   \<and> status (fst (post_register sample_env
      (snd (post_register sample_env fresh_db
         (request_of [] [] [(''email'', JStr ''a@x.com''), (''password'', JStr ''p1''),
            (''verifiedPassword'', JStr ''p1'')])))
      (request_of [] [] [(''email'', JStr ''a@x.com''), (''password'', JStr ''p1''),
         (''verifiedPassword'', JStr ''p1'')]))) = 201
   \<and> map u_email (Users (snd (post_register sample_env
      (snd (post_register sample_env fresh_db
         (request_of [] [] [(''email'', JStr ''a@x.com''), (''password'', JStr ''p1''),
            (''verifiedPassword'', JStr ''p1'')])))
      (request_of [] [] [(''email'', JStr ''a@x.com''), (''password'', JStr ''p1''),
         (''verifiedPassword'', JStr ''p1'')]))))
     = [Some ''a@x.com'', Some ''a@x.com'']"
  by (simp add: post_register_def User_create_def get_field_def reply_def Let_def sample_defs)

text \<open>
  C3, amended. Two \<^verbatim>\<open>POST /register\<close> requests with the same email, one after the other,
  that both pass the validation of the fields, whose passwords \<^verbatim>\<open>bcrypt.hash\<close>
  accepts and whose email the column stores, are both answered 201, and the table has
  two more rows with that email than before: nothing rejects the second one.
\<close>

theorem register_same_email_twice_both_created:
  assumes "body_field req1 ''email'' = email"
      and "body_field req2 ''email'' = email"
      and "\<not> falsy email"
      and "\<not> falsy (body_field req1 ''password'')"
      and "strict_eq (body_field req1 ''password'') (body_field req1 ''verifiedPassword'')"
      and "\<not> falsy (body_field req2 ''password'')"
      and "strict_eq (body_field req2 ''password'') (body_field req2 ''verifiedPassword'')"
      and "bcrypt_hash env1 (body_field req1 ''password'') = Inr h1"
      and "bcrypt_hash env2 (body_field req2 ''password'') = Inr h2"
      and "sql_text env1 email = Inr stored"
      and "sql_text env2 email = Inr stored"
      and "post_register env1 d req1 = (res1, d1)"
      and "post_register env2 d1 req2 = (res2, d2)"
  shows "status res1 = 201 \<and> status res2 = 201
       \<and> length (filter (\<lambda>u. u_email u = stored) (Users d2))
           = length (filter (\<lambda>u. u_email u = stored) (Users d)) + 2"
proof -
  have first: "post_register env1 d req1
           = (reply 201 (JObj [(''message'', JStr ''Utilisateur enregistrer avec succes''),
                               (''userId'', JNum (next_User d))]),
              d\<lparr>Users := Users d @ [\<lparr>u_id = next_User d, u_username = None, u_email = stored,
                                      u_password = Some h1,
                                      u_createdAt = now env1, u_updatedAt = now env1\<rparr>],
                next_User := next_User d + 1\<rparr>)"
    using assms(1,3,4,5,8,10) by (intro post_register_created) simp_all
  have second: "post_register env2 d1 req2
           = (reply 201 (JObj [(''message'', JStr ''Utilisateur enregistrer avec succes''),
                               (''userId'', JNum (next_User d1))]),
              d1\<lparr>Users := Users d1 @ [\<lparr>u_id = next_User d1, u_username = None, u_email = stored,
                                      u_password = Some h2,
                                      u_createdAt = now env2, u_updatedAt = now env2\<rparr>],
                next_User := next_User d1 + 1\<rparr>)"
    using assms(2,3,6,7,9,11) by (intro post_register_created) simp_all
  from first assms(12) have r1: "status res1 = 201"
    and d1: "Users d1 = Users d @ [\<lparr>u_id = next_User d, u_username = None, u_email = stored,
                                      u_password = Some h1,
                                      u_createdAt = now env1, u_updatedAt = now env1\<rparr>]"
    by (auto simp: reply_def)
  from second assms(13) have r2: "status res2 = 201"
    and d2: "Users d2 = Users d1 @ [\<lparr>u_id = next_User d1, u_username = None, u_email = stored,
                                      u_password = Some h2,
                                      u_createdAt = now env2, u_updatedAt = now env2\<rparr>]"
    by (auto simp: reply_def)
  show ?thesis by (simp add: r1 r2 d1 d2)
qed

text \<open>
  Two registrations, with different passwords, of the address that the second user
  of the sample database already has: three rows hold it afterwards.
\<close>

theorem register_same_email_twice_both_created_witness:
  "status (fst (post_register sample_env sample_db
      (request_of [] [] [(''email'', JStr ''b@x.com''), (''password'', JStr ''p3''),
         (''verifiedPassword'', JStr ''p3'')]))) = 201
   \<and> status (fst (post_register sample_env
      (snd (post_register sample_env sample_db
         (request_of [] [] [(''email'', JStr ''b@x.com''), (''password'', JStr ''p3''),
            (''verifiedPassword'', JStr ''p3'')])))
      (request_of [] [] [(''email'', JStr ''b@x.com''), (''password'', JStr ''p4''),
         (''verifiedPassword'', JStr ''p4'')]))) = 201
   \<and> length (filter (\<lambda>u. u_email u = Some ''b@x.com'') (Users (snd (post_register sample_env
      (snd (post_register sample_env sample_db
         (request_of [] [] [(''email'', JStr ''b@x.com''), (''password'', JStr ''p3''),
            (''verifiedPassword'', JStr ''p3'')])))
      (request_of [] [] [(''email'', JStr ''b@x.com''), (''password'', JStr ''p4''),
         (''verifiedPassword'', JStr ''p4'')]))))) = 3"
proof -
  let ?one = "request_of [] [] [(''email'', JStr ''b@x.com''), (''password'', JStr ''p3''),
                (''verifiedPassword'', JStr ''p3'')]"
  let ?two = "request_of [] [] [(''email'', JStr ''b@x.com''), (''password'', JStr ''p4''),
                (''verifiedPassword'', JStr ''p4'')]"
  let ?d1 = "snd (post_register sample_env sample_db ?one)"
  have fields:
    "body_field ?one ''email'' = JStr ''b@x.com''"
    "body_field ?two ''email'' = JStr ''b@x.com''"
    "body_field ?one ''password'' = JStr ''p3''"
    "body_field ?one ''verifiedPassword'' = JStr ''p3''"
    "body_field ?two ''password'' = JStr ''p4''"
    "body_field ?two ''verifiedPassword'' = JStr ''p4''"
    by (simp_all add: body_field_def get_field_def request_of_def)
  have libs:
    "bcrypt_hash sample_env (JStr ''p3'') = Inr ''hash:p3''"
    "bcrypt_hash sample_env (JStr ''p4'') = Inr ''hash:p4''"
    "sql_text sample_env (JStr ''b@x.com'') = Inr (Some ''b@x.com'')"
    by (simp_all add: sample_env_def sample_hash_def sample_text_def)
  have before: "length (filter (\<lambda>u. u_email u = Some ''b@x.com'') (Users sample_db)) = 1"
    by (simp add: sample_db_def first_user_def second_user_def)
  from register_same_email_twice_both_created
         [where ?req1.0 = ?one and ?req2.0 = ?two and email = "JStr ''b@x.com''"
            and ?env1.0 = sample_env and ?env2.0 = sample_env
            and ?h1.0 = "''hash:p3''" and ?h2.0 = "''hash:p4''"
            and stored = "Some ''b@x.com''" and d = sample_db
            and ?res1.0 = "fst (post_register sample_env sample_db ?one)" and ?d1.0 = ?d1
            and ?res2.0 = "fst (post_register sample_env ?d1 ?two)"
            and ?d2.0 = "snd (post_register sample_env ?d1 ?two)"]
       fields libs before
  show ?thesis by simp
qed

section \<open>Which post a delete request names\<close>

text \<open>
  C4. \<^verbatim>\<open>DELETE /posts/:postId\<close> never reads the path: replacing \<^verbatim>\<open>req.params\<close> by
  anything else changes neither the answer nor the database. The row that is looked
  up, compared with the user of the token and destroyed is the one whose key is the
  \<^verbatim>\<open>postId\<close> field of the body: a 404 means that this key finds no post, a 403 that
  the post it finds has another owner, and a 200 that exactly the rows with that
  post's id have left the table.
\<close>

theorem delete_post_target_from_body:
  "app env DELETE_posts d (req\<lparr>params := ps\<rparr>) = app env DELETE_posts d req
   \<and> (isLoggedInJWT env req = Inr userId
        \<and> status (fst (app env DELETE_posts d req)) = 404
      \<longrightarrow> Post_findByPk env d (body_field req ''postId'') = Inr None)
   \<and> (isLoggedInJWT env req = Inr userId
        \<and> status (fst (app env DELETE_posts d req)) = 403
      \<longrightarrow> (\<exists>post. Post_findByPk env d (body_field req ''postId'') = Inr (Some post)
              \<and> \<not> strict_eq (int_json (p_UserId post)) userId))
   \<and> (isLoggedInJWT env req = Inr userId
        \<and> status (fst (app env DELETE_posts d req)) = 200
      \<longrightarrow> (\<exists>post. Post_findByPk env d (body_field req ''postId'') = Inr (Some post)
              \<and> strict_eq (int_json (p_UserId post)) userId
              \<and> Posts (snd (app env DELETE_posts d req))
                  = filter (\<lambda>p. p_id p \<noteq> p_id post) (Posts d)))"
proof (intro conjI impI)
  show "app env DELETE_posts d (req\<lparr>params := ps\<rparr>) = app env DELETE_posts d req"
    by (simp add: guarded_def isLoggedInJWT_params delete_post_params cong: sum.case_cong)
next
  assume "isLoggedInJWT env req = Inr userId
            \<and> status (fst (app env DELETE_posts d req)) = 404"
  then show "Post_findByPk env d (body_field req ''postId'') = Inr None"
    by (auto simp: guarded_def delete_post_def reply_def body_field_def uncaught_def
             split: sum.splits option.splits if_splits)
next
  assume "isLoggedInJWT env req = Inr userId
            \<and> status (fst (app env DELETE_posts d req)) = 403"
  then show "\<exists>post. Post_findByPk env d (body_field req ''postId'') = Inr (Some post)
               \<and> \<not> strict_eq (int_json (p_UserId post)) userId"
    by (auto simp: guarded_def delete_post_def reply_def body_field_def uncaught_def
             split: sum.splits option.splits if_splits)
next
  assume "isLoggedInJWT env req = Inr userId
            \<and> status (fst (app env DELETE_posts d req)) = 200"
  then show "\<exists>post. Post_findByPk env d (body_field req ''postId'') = Inr (Some post)
              \<and> strict_eq (int_json (p_UserId post)) userId
              \<and> Posts (snd (app env DELETE_posts d req))
                  = filter (\<lambda>p. p_id p \<noteq> p_id post) (Posts d)"
    by (auto simp: guarded_def delete_post_def reply_def body_field_def uncaught_def
             Post_destroy_def split: sum.splits option.splits if_splits)
qed

text \<open>
  The second user sends \<^verbatim>\<open>DELETE /posts/1\<close> with \<^verbatim>\<open>{"postId": 2}\<close> in the body:
  post 2, which is theirs, is deleted and post 1, which the path names, stays; the same
  request sent to \<^verbatim>\<open>/posts/2\<close> does the same. With \<^verbatim>\<open>DELETE /posts/2\<close> and
  \<^verbatim>\<open>{"postId": 1}\<close> in the body the second user is refused for the first user's post,
  and with the empty object as the body is told that no post was found.
\<close>

theorem delete_post_target_from_body_witness:
  "isLoggedInJWT sample_env
     (request_of [(''token'', JStr ''token-of-2'')] [(''postId'', JStr ''1'')]
        [(''postId'', JNum 2)]) = Inr (JNum 2)
   \<and> status (fst (app sample_env DELETE_posts sample_db
       (request_of [(''token'', JStr ''token-of-2'')] [(''postId'', JStr ''1'')]
          [(''postId'', JNum 2)]))) = 200
   \<and> Posts (snd (app sample_env DELETE_posts sample_db
       (request_of [(''token'', JStr ''token-of-2'')] [(''postId'', JStr ''1'')]
          [(''postId'', JNum 2)]))) = [first_post]
   \<and> app sample_env DELETE_posts sample_db
       (request_of [(''token'', JStr ''token-of-2'')] [(''postId'', JStr ''1'')]
          [(''postId'', JNum 2)])
     = app sample_env DELETE_posts sample_db
       (request_of [(''token'', JStr ''token-of-2'')] [(''postId'', JStr ''2'')]
          [(''postId'', JNum 2)])
   \<and> status (fst (app sample_env DELETE_posts sample_db
       (request_of [(''token'', JStr ''token-of-2'')] [(''postId'', JStr ''2'')]
          [(''postId'', JNum 1)]))) = 403
   \<and> Post_findByPk sample_env sample_db (JNum 1) = Inr (Some first_post)
   \<and> status (fst (app sample_env DELETE_posts sample_db
       (request_of [(''token'', JStr ''token-of-2'')] [(''postId'', JStr ''2'')] []))) = 404
   \<and> Post_findByPk sample_env sample_db JUndefined = Inr None"
proof -
  let ?req = "request_of [(''token'', JStr ''token-of-2'')] [(''postId'', JStr ''1'')]
                [(''postId'', JNum 2)]"
  let ?other = "request_of [(''token'', JStr ''token-of-2'')] [(''postId'', JStr ''2'')]
                  [(''postId'', JNum 1)]"
  let ?bare = "request_of [(''token'', JStr ''token-of-2'')] [(''postId'', JStr ''2'')] []"
  have auth: "isLoggedInJWT sample_env ?req = Inr (JNum 2)"
             "isLoggedInJWT sample_env ?other = Inr (JNum 2)"
             "isLoggedInJWT sample_env ?bare = Inr (JNum 2)"
    by (simp_all add: isLoggedInJWT_def get_field_def get_prop_def sample_defs)
  have fields: "body_field ?req ''postId'' = JNum 2"
               "body_field ?other ''postId'' = JNum 1"
               "body_field ?bare ''postId'' = JUndefined"
    by (simp_all add: body_field_def get_field_def request_of_def)
  have found: "Post_findByPk sample_env sample_db (JNum 2) = Inr (Some second_post)"
              "Post_findByPk sample_env sample_db (JNum 1) = Inr (Some first_post)"
              "Post_findByPk sample_env sample_db JUndefined = Inr None"
    by (simp_all add: Post_findByPk_def find_key_def sample_db_def first_post_def
          second_post_def)
  have owners: "strict_eq (int_json (p_UserId second_post)) (JNum 2)"
               "\<not> strict_eq (int_json (p_UserId first_post)) (JNum 2)"
    by (simp_all add: int_json_def first_post_def second_post_def)
  have run: "delete_post sample_env (JNum 2) sample_db ?req
               = (reply 200 (message ''Post supprime avec succes''),
                  Post_destroy sample_env sample_db second_post)"
            "delete_post sample_env (JNum 2) sample_db ?other
               = (reply 403 (message ''Action interdite''), sample_db)"
            "delete_post sample_env (JNum 2) sample_db ?bare
               = (reply 404 (message ''Post non trouve''), sample_db)"
    by (simp_all add: delete_post_def request_of_def get_field_def found owners)
  have ok: "status (fst (app sample_env DELETE_posts sample_db ?req)) = 200"
           "status (fst (app sample_env DELETE_posts sample_db ?other)) = 403"
           "status (fst (app sample_env DELETE_posts sample_db ?bare)) = 404"
    by (simp_all add: guarded_def auth run reply_def)
  have left: "Posts (snd (app sample_env DELETE_posts sample_db ?req)) = [first_post]"
    by (simp add: guarded_def auth run)
       (simp add: Post_destroy_def sample_db_def first_post_def second_post_def)
  have path: "?req\<lparr>params := map_of [(''postId'', JStr ''2'')]\<rparr>
               = request_of [(''token'', JStr ''token-of-2'')] [(''postId'', JStr ''2'')]
                   [(''postId'', JNum 2)]"
    by (simp add: request_of_def)
  from delete_post_target_from_body
         [where env = sample_env and d = sample_db and req = ?req
            and ps = "map_of [(''postId'', JStr ''2'')]" and userId = "JNum 2"]
       delete_post_target_from_body
         [where env = sample_env and d = sample_db and req = ?other
            and ps = "map_of [(''postId'', JStr ''2'')]" and userId = "JNum 2"]
       delete_post_target_from_body
         [where env = sample_env and d = sample_db and req = ?bare
            and ps = "map_of [(''postId'', JStr ''2'')]" and userId = "JNum 2"]
       auth ok left path found
  show ?thesis by simp
qed

section \<open>Login\<close>

text \<open>
  C6. The two branches of \<^verbatim>\<open>POST /login\<close> that answer 401 send the same message,
  whether the email selects no user or the password does not match. The handler
  checks only that the password is present: for a password that is not a string
  \<^verbatim>\<open>bcrypt.compare\<close> does not answer false, it throws (\<^verbatim>\<open>data and hash must be
  strings\<close>), and the \<^verbatim>\<open>catch\<close> answers 500. The comparison is reached only when the
  email selects a user, so the wrong password 123 is answered 500 for an address that
  is registered and 401 for one that is not, while the wrong password
  \<^verbatim>\<open>"wrong"\<close> gets the same 401 response for both.
\<close>

theorem login_non_string_password_500:
  "\<not> falsy (JNum 123)
   \<and> User_findOne sample_env sample_db (JStr ''a@x.com'') = Inr (Some first_user)
   \<and> bcrypt_compare sample_env (JNum 123) (text_json (u_password first_user))
       = Inl ''data and hash must be strings''
   \<and> status (fst (post_login sample_env sample_db
        (request_of [] [] [(''email'', JStr ''a@x.com''), (''password'', JNum 123)]))) = 500
   \<and> User_findOne sample_env sample_db (JStr ''nobody@x.com'') = Inr None
   \<and> status (fst (post_login sample_env sample_db
        (request_of [] [] [(''email'', JStr ''nobody@x.com''), (''password'', JNum 123)])))
       = 401
   \<and> bcrypt_compare sample_env (JStr ''wrong'') (text_json (u_password first_user))
       = Inr False
   \<and> status (fst (post_login sample_env sample_db
        (request_of [] [] [(''email'', JStr ''a@x.com''), (''password'', JStr ''wrong'')])))
       = 401
   \<and> fst (post_login sample_env sample_db
        (request_of [] [] [(''email'', JStr ''a@x.com''), (''password'', JStr ''wrong'')]))
     = fst (post_login sample_env sample_db
        (request_of [] [] [(''email'', JStr ''nobody@x.com''), (''password'', JStr ''wrong'')]))"
  by (simp add: post_login_def User_findOne_def get_field_def text_json_def reply_def
        sample_defs)

section \<open>The middleware on the mutating routes\<close>

text \<open>
  C2, as the claim states it, fails on a cookie that is there with an empty value: the
  cookie's token does not pass \<^verbatim>\<open>jwt.verify\<close>, and the answer is the 401 of the
  \<^verbatim>\<open>!token\<close> guard, not 403.
\<close>

theorem empty_token_cookie_counterexample:
  "cookies (request_of [(''token'', JStr '''')] [] [(''postId'', JNum 1)]) ''token''
     = Some (JStr '''')
   \<and> jwt_verify sample_env (JStr '''') = Inl ''jwt must be provided''
   \<and> status (fst (app sample_env DELETE_posts sample_db
        (request_of [(''token'', JStr '''')] [] [(''postId'', JNum 1)]))) = 401"
  by (simp add: guarded_def isLoggedInJWT_def get_field_def reply_def sample_defs)

text \<open>
  C2, amended. On each of the four routes behind \<^verbatim>\<open>isLoggedInJWT\<close>: a request with
  no \<^verbatim>\<open>token\<close> cookie, or with one whose value is empty (falsy), is answered 401; a
  request whose cookie holds a non-empty value that \<^verbatim>\<open>jwt.verify\<close> rejects is
  answered 403. In both cases the database is unchanged and the answer is the
  middleware's whatever the handler behind it is: the handler does not run.
\<close>

theorem mutating_routes_refuse_before_handler:
  assumes "route = POST_post \<or> route = POST_posts_comments \<or> route = DELETE_posts
             \<or> route = DELETE_comments"
  shows "(cookies req ''token'' = None \<or> falsy (get_field (cookies req) ''token'')
          \<longrightarrow> status (fst (app env route d req)) = 401 \<and> snd (app env route d req) = d
              \<and> guarded env handler d req
                  = (reply 401 (message ''Acces refuse. Veuillez vous connecter.''), d))
       \<and> (\<not> falsy (get_field (cookies req) ''token'')
            \<and> jwt_verify env (get_field (cookies req) ''token'') = Inl e
          \<longrightarrow> status (fst (app env route d req)) = 403 \<and> snd (app env route d req) = d
              \<and> guarded env handler d req
                  = (reply 403 (message ''Token invalide ou expire.''), d))"
proof -
  have absent: "cookies req ''token'' = None \<Longrightarrow> falsy (get_field (cookies req) ''token'')"
    by (simp add: get_field_def)
  have no: "falsy (get_field (cookies req) ''token'') \<Longrightarrow>
              guarded env h d req
                = (reply 401 (message ''Acces refuse. Veuillez vous connecter.''), d)" for h
    by (simp add: guarded_def isLoggedInJWT_def)
  have bad: "\<not> falsy (get_field (cookies req) ''token'') \<Longrightarrow>
              jwt_verify env (get_field (cookies req) ''token'') = Inl e \<Longrightarrow>
              guarded env h d req = (reply 403 (message ''Token invalide ou expire.''), d)" for h
    by (simp add: guarded_def isLoggedInJWT_def)
  from assms obtain h where route: "app env route = guarded env h"
    by auto
  show ?thesis
    using absent no bad by (auto simp: route reply_def)
qed

text \<open>A comment sent without a cookie, and one sent with a token nobody signed.\<close>

theorem mutating_routes_refuse_before_handler_witness:
  "cookies (request_of [] [(''postId'', JStr ''1'')] [(''content'', JStr ''hi'')]) ''token'' = None
   \<and> status (fst (app sample_env POST_posts_comments sample_db
        (request_of [] [(''postId'', JStr ''1'')] [(''content'', JStr ''hi'')]))) = 401
   \<and> snd (app sample_env POST_posts_comments sample_db
        (request_of [] [(''postId'', JStr ''1'')] [(''content'', JStr ''hi'')])) = sample_db
   \<and> \<not> falsy (get_field (cookies (request_of [(''token'', JStr ''token-of-1x'')]
          [(''postId'', JStr ''1'')] [(''content'', JStr ''hi'')])) ''token'')
   \<and> jwt_verify sample_env (JStr ''token-of-1x'') = Inl ''invalid token''
   \<and> status (fst (app sample_env POST_posts_comments sample_db
        (request_of [(''token'', JStr ''token-of-1x'')] [(''postId'', JStr ''1'')]
           [(''content'', JStr ''hi'')]))) = 403
   \<and> snd (app sample_env POST_posts_comments sample_db
        (request_of [(''token'', JStr ''token-of-1x'')] [(''postId'', JStr ''1'')]
           [(''content'', JStr ''hi'')])) = sample_db"
proof -
  let ?bare = "request_of [] [(''postId'', JStr ''1'')] [(''content'', JStr ''hi'')]"
  let ?forged = "request_of [(''token'', JStr ''token-of-1x'')] [(''postId'', JStr ''1'')]
                   [(''content'', JStr ''hi'')]"
  have none: "cookies ?bare ''token'' = None"
    by (simp add: request_of_def)
  have some: "get_field (cookies ?forged) ''token'' = JStr ''token-of-1x''"
    by (simp add: get_field_def request_of_def)
  have refused: "jwt_verify sample_env (JStr ''token-of-1x'') = Inl ''invalid token''"
    by (simp add: sample_env_def sample_verify_def)
  from mutating_routes_refuse_before_handler
         [where route = POST_posts_comments and req = ?bare and env = sample_env
            and d = sample_db and handler = "post_comment sample_env" and e = "[]"]
       mutating_routes_refuse_before_handler
         [where route = POST_posts_comments and req = ?forged and env = sample_env
            and d = sample_db and e = "''invalid token''"
            and handler = "post_comment sample_env"]
       none some refused
  show ?thesis by (simp add: reply_def)
qed

section \<open>Start of the process\<close>

text \<open>
  C9. \<^verbatim>\<open>main\<close> starts by \<^verbatim>\<open>loadSequelize\<close>, which synchronises with
  \<^verbatim>\<open>force: true\<close> whatever the database holds: when the server can be reached the
  process serves the forced synchronisation of what was stored, and a process that has
  started serves a database whose three tables have no row.
\<close>

theorem boot_discards_every_row:
  "(reachable \<longrightarrow> main reachable stored = Some (sync True stored))
   \<and> (main reachable stored = Some d
        \<longrightarrow> Users d = [] \<and> Posts d = [] \<and> Comments d = [])"
  by (auto simp: main_def loadSequelize_def sync_def fresh_db_def split: if_splits)

text \<open>A start on a database that holds two users, two posts and a comment.\<close>

theorem boot_discards_every_row_witness:
  "main True sample_db = Some (sync True sample_db)
   \<and> Users sample_db \<noteq> []
   \<and> main True sample_db = Some fresh_db
   \<and> Users fresh_db = [] \<and> Posts fresh_db = [] \<and> Comments fresh_db = []"
  using boot_discards_every_row [of True sample_db fresh_db]
  by (simp add: main_def loadSequelize_def sync_def sample_db_def fresh_db_def)

section \<open>Commenting\<close>

text \<open>
  C8, as the claim states it, fails on four requests that pass the middleware and whose
  path names a post that the handler finds.
  \<^item> The token names a user that the table does not hold, as a token signed before a
    restart does afterwards; the handler never looks the user up. Where the foreign key
    of \<^verbatim>\<open>Comment.belongsTo(User)\<close> is enforced, as it is unless the database has been
    told otherwise, the insert is refused and the answer is 500 with no row created, not
    201; where it is not enforced, the answer is 201 and the comment that is created
    refers to a user that does not exist.
  \<^item> The path is \<^verbatim>\<open>/posts/1abc/comments\<close>: the comparison of the lookup reads
    \<^verbatim>\<open>'1abc'\<close> as 1 and finds the post, the insert refuses \<^verbatim>\<open>'1abc'\<close> as a
    \<^verbatim>\<open>PostId\<close>, and the answer is 500.
  \<^item> The content is an array, which a \<^verbatim>\<open>TEXT\<close> attribute does not take: the answer is
    500.
  \<^item> The request has no body: \<^verbatim>\<open>content\<close> is taken out of \<^verbatim>\<open>req.body\<close> before the
    \<^verbatim>\<open>try\<close>, and the answer is the 500 of an error that nothing catches.
\<close>

theorem comment_on_existing_post_counterexample:
  "isLoggedInJWT sample_env
     (request_of [(''token'', JStr ''token-of-2'')] [(''postId'', JStr ''1'')]
        [(''content'', JStr ''hi'')]) = Inr (JNum 2)
   \<and> Post_findByPk sample_env restarted_db (JStr ''1'') = Inr (Some first_post)
   \<and> map u_id (Users restarted_db) = [1]
   \<and> status (fst (app sample_env POST_posts_comments restarted_db
        (request_of [(''token'', JStr ''token-of-2'')] [(''postId'', JStr ''1'')]
           [(''content'', JStr ''hi'')]))) = 500
   \<and> Comments (snd (app sample_env POST_posts_comments restarted_db
        (request_of [(''token'', JStr ''token-of-2'')] [(''postId'', JStr ''1'')]
           [(''content'', JStr ''hi'')]))) = []
   \<and> status (fst (app (sample_env\<lparr>foreign_key_checks := False\<rparr>) POST_posts_comments
        restarted_db
        (request_of [(''token'', JStr ''token-of-2'')] [(''postId'', JStr ''1'')]
           [(''content'', JStr ''hi'')]))) = 201
   \<and> map c_UserId (Comments (snd (app (sample_env\<lparr>foreign_key_checks := False\<rparr>)
        POST_posts_comments restarted_db
        (request_of [(''token'', JStr ''token-of-2'')] [(''postId'', JStr ''1'')]
           [(''content'', JStr ''hi'')])))) = [Some 2]
   \<and> map u_id (Users (snd (app (sample_env\<lparr>foreign_key_checks := False\<rparr>)
        POST_posts_comments restarted_db
        (request_of [(''token'', JStr ''token-of-2'')] [(''postId'', JStr ''1'')]
           [(''content'', JStr ''hi'')])))) = [1]
   \<and> Post_findByPk sample_env sample_db (JStr ''1abc'') = Inr (Some first_post)
   \<and> status (fst (app sample_env POST_posts_comments sample_db
        (request_of [(''token'', JStr ''token-of-2'')] [(''postId'', JStr ''1abc'')]
           [(''content'', JStr ''hi'')]))) = 500
   \<and> Post_findByPk sample_env sample_db (JStr ''1'') = Inr (Some first_post)
   \<and> status (fst (app sample_env POST_posts_comments sample_db
        (request_of [(''token'', JStr ''token-of-2'')] [(''postId'', JStr ''1'')]
           [(''content'', JArr [JStr ''hi''])]))) = 500
   \<and> status (fst (app sample_env POST_posts_comments sample_db
        (request_without_body [(''token'', JStr ''token-of-2'')] [(''postId'', JStr ''1'')])))
       = 500"
  by (simp add: guarded_def isLoggedInJWT_def post_comment_def Post_findByPk_def
        Comment_create_def fk_value_def column_int_def find_key_def get_field_def
        get_prop_def reply_def uncaught_def created_json_def Let_def sample_defs)

text \<open>
  C8, amended. For a \<^verbatim>\<open>POST /posts/:postId/comments\<close> request that passes the
  middleware and has a body: when the path's \<^verbatim>\<open>postId\<close> finds no post the answer is
  404 and the database is unchanged; when it finds a post, the database stores the
  path's \<^verbatim>\<open>postId\<close> as the id of that post, the content can be stored as text and
  the token's user id is the id of a row of \<^verbatim>\<open>Users\<close>, the answer is 201 and exactly
  one row is added to \<^verbatim>\<open>Comments\<close>, whose \<^verbatim>\<open>PostId\<close> is the id of that post and whose
  \<^verbatim>\<open>UserId\<close> is the token's user id, both of which are in their tables afterwards;
  when it finds a post, the token's user id is a number that is the id of no user and
  foreign keys are enforced, the answer is 500 and the three tables have the rows they
  had.
\<close>

theorem comment_created_for_existing_post_and_user:
  assumes "isLoggedInJWT env req = Inr userId"
      and "body req = Some b"
  shows "(Post_findByPk env d (get_field (params req) ''postId'') = Inr None
          \<longrightarrow> status (fst (app env POST_posts_comments d req)) = 404
              \<and> snd (app env POST_posts_comments d req) = d)
       \<and> (Post_findByPk env d (get_field (params req) ''postId'') = Inr (Some post)
            \<and> column_int env (get_field (params req) ''postId'') = Inr (Some (p_id post))
            \<and> sql_text env (get_field b ''content'') = Inr stored
            \<and> userId = JNum u \<and> u \<in> set (map u_id (Users d))
          \<longrightarrow> status (fst (app env POST_posts_comments d req)) = 201
              \<and> (\<exists>row. Comments (snd (app env POST_posts_comments d req)) = Comments d @ [row]
                    \<and> c_PostId row = Some (p_id post) \<and> c_UserId row = Some u)
              \<and> post \<in> set (Posts (snd (app env POST_posts_comments d req)))
              \<and> u \<in> set (map u_id (Users (snd (app env POST_posts_comments d req)))))
       \<and> (Post_findByPk env d (get_field (params req) ''postId'') = Inr (Some post)
            \<and> userId = JNum u \<and> u \<notin> set (map u_id (Users d)) \<and> foreign_key_checks env
          \<longrightarrow> status (fst (app env POST_posts_comments d req)) = 500
              \<and> Comments (snd (app env POST_posts_comments d req)) = Comments d
              \<and> Posts (snd (app env POST_posts_comments d req)) = Posts d
              \<and> Users (snd (app env POST_posts_comments d req)) = Users d)"
proof (intro conjI impI)
  assume "Post_findByPk env d (get_field (params req) ''postId'') = Inr None"
  with assms show "status (fst (app env POST_posts_comments d req)) = 404"
    and "snd (app env POST_posts_comments d req) = d"
    by (simp_all add: guarded_def post_comment_def reply_def)
next
  assume h: "Post_findByPk env d (get_field (params req) ''postId'') = Inr (Some post)
            \<and> column_int env (get_field (params req) ''postId'') = Inr (Some (p_id post))
            \<and> sql_text env (get_field b ''content'') = Inr stored
            \<and> userId = JNum u \<and> u \<in> set (map u_id (Users d))"
  from h have mem: "post \<in> set (Posts d)"
    using Post_findByPk_mem by blast
  then have "p_id post \<in> set (map p_id (Posts d))" by simp
  with h have fk: "fk_value env (map p_id (Posts d)) (get_field (params req) ''postId'')
                      = Inr (Some (p_id post))"
    by (simp add: fk_value_def)
  from h have fu: "fk_value env (map u_id (Users d)) userId = Inr (Some u)"
    by (simp add: fk_value_def column_int_def)
  define row where "row = \<lparr>c_id = next_Comment d, c_content = stored,
                             c_createdAt = now env, c_updatedAt = now env,
                             c_UserId = Some u, c_PostId = Some (p_id post)\<rparr>"
  have run: "snd (app env POST_posts_comments d req)
               = d\<lparr>Comments := Comments d @ [row], next_Comment := next_Comment d + 1\<rparr>"
            "status (fst (app env POST_posts_comments d req)) = 201"
    using assms h fk fu
    by (simp_all add: guarded_def post_comment_def Comment_create_def Let_def row_def
          reply_def)
  show "status (fst (app env POST_posts_comments d req)) = 201"
    by (rule run(2))
  show "\<exists>row. Comments (snd (app env POST_posts_comments d req)) = Comments d @ [row]
                    \<and> c_PostId row = Some (p_id post) \<and> c_UserId row = Some u"
    unfolding run(1) by (simp add: row_def)
  show "post \<in> set (Posts (snd (app env POST_posts_comments d req)))"
    unfolding run(1) using mem by simp
  show "u \<in> set (map u_id (Users (snd (app env POST_posts_comments d req))))"
    unfolding run(1) using h by simp
next
  assume h: "Post_findByPk env d (get_field (params req) ''postId'') = Inr (Some post)
            \<and> userId = JNum u \<and> u \<notin> set (map u_id (Users d)) \<and> foreign_key_checks env"
  then have fu: "fk_value env (map u_id (Users d)) userId
                   = Inl ''Cannot add or update a child row: a foreign key constraint fails''"
    by (simp add: fk_value_def column_int_def)
  with assms h have "status (fst (app env POST_posts_comments d req)) = 500"
    and "snd (app env POST_posts_comments d req) = d"
    by (simp_all add: guarded_def post_comment_def Comment_create_def reply_def Let_def
          split: sum.splits)
  then show "status (fst (app env POST_posts_comments d req)) = 500"
    and "Comments (snd (app env POST_posts_comments d req)) = Comments d"
    and "Posts (snd (app env POST_posts_comments d req)) = Posts d"
    and "Users (snd (app env POST_posts_comments d req)) = Users d"
    by simp_all
qed

text \<open>
  The second user comments on the first post, then on a post that does not exist; and
  the same token is used after a restart that has removed the second user's row.
\<close>

theorem comment_created_for_existing_post_and_user_witness:
  "isLoggedInJWT sample_env
     (request_of [(''token'', JStr ''token-of-2'')] [(''postId'', JStr ''1'')]
        [(''content'', JStr ''hi'')]) = Inr (JNum 2)
   \<and> Post_findByPk sample_env sample_db (JStr ''1'') = Inr (Some first_post)
   \<and> column_int sample_env (JStr ''1'') = Inr (Some (p_id first_post))
   \<and> sql_text sample_env (JStr ''hi'') = Inr (Some ''hi'')
   \<and> (2::int) \<in> set (map u_id (Users sample_db))
   \<and> status (fst (app sample_env POST_posts_comments sample_db
        (request_of [(''token'', JStr ''token-of-2'')] [(''postId'', JStr ''1'')]
           [(''content'', JStr ''hi'')]))) = 201
   \<and> length (Comments (snd (app sample_env POST_posts_comments sample_db
        (request_of [(''token'', JStr ''token-of-2'')] [(''postId'', JStr ''1'')]
           [(''content'', JStr ''hi'')])))) = 2
   \<and> Post_findByPk sample_env sample_db (JStr ''7'') = Inr None
   \<and> status (fst (app sample_env POST_posts_comments sample_db
        (request_of [(''token'', JStr ''token-of-2'')] [(''postId'', JStr ''7'')]
           [(''content'', JStr ''hi'')]))) = 404
   \<and> (2::int) \<notin> set (map u_id (Users restarted_db))
   \<and> Comments (snd (app sample_env POST_posts_comments restarted_db
        (request_of [(''token'', JStr ''token-of-2'')] [(''postId'', JStr ''1'')]
           [(''content'', JStr ''hi'')]))) = []"
proof -
  let ?req = "request_of [(''token'', JStr ''token-of-2'')] [(''postId'', JStr ''1'')]
                [(''content'', JStr ''hi'')]"
  let ?lost = "request_of [(''token'', JStr ''token-of-2'')] [(''postId'', JStr ''7'')]
                [(''content'', JStr ''hi'')]"
  have auth: "isLoggedInJWT sample_env ?req = Inr (JNum 2)"
             "isLoggedInJWT sample_env ?lost = Inr (JNum 2)"
    by (simp_all add: isLoggedInJWT_def get_field_def get_prop_def sample_defs)
  have bodies: "body ?req = Some (map_of [(''content'', JStr ''hi'')])"
               "body ?lost = Some (map_of [(''content'', JStr ''hi'')])"
    by (simp_all add: request_of_def)
  have fields:
    "get_field (params ?req) ''postId'' = JStr ''1''"
    "get_field (map_of [(''content'', JStr ''hi'')]) ''content'' = JStr ''hi''"
    "get_field (params ?lost) ''postId'' = JStr ''7''"
    by (simp_all add: get_field_def request_of_def)
  have found: "Post_findByPk sample_env sample_db (JStr ''1'') = Inr (Some first_post)"
    by (simp add: Post_findByPk_def find_key_def sample_defs)
  have found': "Post_findByPk sample_env restarted_db (JStr ''1'') = Inr (Some first_post)"
    by (simp add: Post_findByPk_def find_key_def sample_defs)
  have missing: "Post_findByPk sample_env sample_db (JStr ''7'') = Inr None"
    by (simp add: Post_findByPk_def find_key_def sample_defs)
  have storable: "sql_text sample_env (JStr ''hi'') = Inr (Some ''hi'')"
    by (simp add: sample_env_def sample_text_def)
  have key: "column_int sample_env (JStr ''1'') = Inr (Some (p_id first_post))"
    by (simp add: column_int_def sample_defs)
  have users: "(2::int) \<in> set (map u_id (Users sample_db))"
              "(2::int) \<notin> set (map u_id (Users restarted_db))"
    by (simp_all add: sample_db_def restarted_db_def first_user_def second_user_def)
  have count: "length (Comments sample_db) = 1" "Comments restarted_db = []"
    by (simp_all add: sample_db_def restarted_db_def)
  have enforced: "foreign_key_checks sample_env"
    by (simp add: sample_env_def)
  from comment_created_for_existing_post_and_user
         [where env = sample_env and req = ?req and userId = "JNum 2" and d = sample_db
            and b = "map_of [(''content'', JStr ''hi'')]"
            and post = first_post and stored = "Some ''hi''" and u = 2]
       comment_created_for_existing_post_and_user
         [where env = sample_env and req = ?lost and userId = "JNum 2" and d = sample_db
            and b = "map_of [(''content'', JStr ''hi'')]"
            and post = first_post and stored = "Some ''hi''" and u = 2]
       comment_created_for_existing_post_and_user
         [where env = sample_env and req = ?req and userId = "JNum 2" and d = restarted_db
            and b = "map_of [(''content'', JStr ''hi'')]"
            and post = first_post and stored = "Some ''hi''" and u = 2]
       auth bodies fields found found' missing storable key users count enforced
  show ?thesis by auto
qed

section \<open>What the listings send\<close>

text \<open>
  C7. Whatever the database holds, \<^verbatim>\<open>GET /posts\<close> answers 200 with a document in
  which no object, at any depth, has a \<^verbatim>\<open>password\<close> key, and in which every value
  stored under \<^verbatim>\<open>User\<close> (the author of a post or of a comment) is null or an object
  with exactly the keys \<^verbatim>\<open>id\<close> and \<^verbatim>\<open>email\<close>.
\<close>

theorem get_posts_hides_passwords:
  "status (fst (get_posts d req)) = 200
   \<and> \<not> has_key ''password'' (json (fst (get_posts d req)))
   \<and> (\<forall>author \<in> set (values_at ''User'' (json (fst (get_posts d req)))).
         author = JNull \<or> keys_of author = [''id'', ''email''])"
proof (intro conjI ballI)
  show "status (fst (get_posts d req)) = 200"
    by (simp add: get_posts_def reply_def)
  show "\<not> has_key ''password'' (json (fst (get_posts d req)))"
    by (simp add: get_posts_def reply_def post_attrs_def)
  fix author
  assume "author \<in> set (values_at ''User'' (json (fst (get_posts d req))))"
  then have "author \<in> range (include_User d)"
    using values_at_include_Comments
    by (auto simp: get_posts_def reply_def post_attrs_def Post_findAll_def)
  then show "author = JNull \<or> keys_of author = [''id'', ''email'']"
    using include_User_shape by auto
qed

text \<open>
  On the sample database the document embeds three authors, the first of whom has a
  stored password.
\<close>

theorem get_posts_hides_passwords_witness:
  "values_at ''User'' (json (fst (get_posts sample_db (request_of [] [] []))))
     = [JObj [(''id'', JNum 1), (''email'', JStr ''a@x.com'')],
        JObj [(''id'', JNum 1), (''email'', JStr ''a@x.com'')],
        JObj [(''id'', JNum 2), (''email'', JStr ''b@x.com'')]]
   \<and> keys_of (JObj [(''id'', JNum 1), (''email'', JStr ''a@x.com'')]) = [''id'', ''email'']
   \<and> u_password first_user = Some ''hash:p1''
   \<and> \<not> has_key ''password'' (json (fst (get_posts sample_db (request_of [] [] []))))"
proof -
  have authors: "values_at ''User'' (json (fst (get_posts sample_db (request_of [] [] []))))
     = [JObj [(''id'', JNum 1), (''email'', JStr ''a@x.com'')],
        JObj [(''id'', JNum 1), (''email'', JStr ''a@x.com'')],
        JObj [(''id'', JNum 2), (''email'', JStr ''b@x.com'')]]"
    by (simp add: get_posts_def reply_def Post_findAll_def post_attrs_def comment_attrs_def
          include_User_def include_Comments_def text_json_def int_json_def sample_defs)
  from get_posts_hides_passwords [of sample_db "request_of [] [] []"] authors
  show ?thesis by (simp add: keys_of_def first_user_def)
qed

text \<open>
  C10. Whatever the database holds, \<^verbatim>\<open>GET /users\<close> answers 200 with an array that
  has one object for each row of \<^verbatim>\<open>Users\<close>, in order, with all six attributes of the
  row and their stored values, the \<^verbatim>\<open>password\<close> among them.
\<close>

theorem get_users_sends_every_attribute:
  "status (fst (get_users d req)) = 200
   \<and> json (fst (get_users d req)) = JArr (elements (json (fst (get_users d req))))
   \<and> length (elements (json (fst (get_users d req)))) = length (Users d)
   \<and> (\<forall>i < length (Users d).
        keys_of (elements (json (fst (get_users d req))) ! i)
          = [''id'', ''username'', ''email'', ''password'', ''createdAt'', ''updatedAt'']
        \<and> get_prop (elements (json (fst (get_users d req))) ! i) ''id''
            = Inr (JNum (u_id (Users d ! i)))
        \<and> get_prop (elements (json (fst (get_users d req))) ! i) ''username''
            = Inr (text_json (u_username (Users d ! i)))
        \<and> get_prop (elements (json (fst (get_users d req))) ! i) ''email''
            = Inr (text_json (u_email (Users d ! i)))
        \<and> get_prop (elements (json (fst (get_users d req))) ! i) ''password''
            = Inr (text_json (u_password (Users d ! i)))
        \<and> get_prop (elements (json (fst (get_users d req))) ! i) ''createdAt''
            = Inr (JNum (u_createdAt (Users d ! i)))
        \<and> get_prop (elements (json (fst (get_users d req))) ! i) ''updatedAt''
            = Inr (JNum (u_updatedAt (Users d ! i))))"
  by (simp add: get_users_def reply_def elements_def User_findAll_def user_attrs_def
        keys_of_def get_prop_def)

text \<open>
  On the sample database the first element carries the first user's stored hash.
\<close>

theorem get_users_sends_every_attribute_witness:
  "(0::nat) < length (Users sample_db)
   \<and> Users sample_db ! 0 = first_user
   \<and> get_prop (elements (json (fst (get_users sample_db (request_of [] [] [])))) ! 0)
        ''password'' = Inr (JStr ''hash:p1'')
   \<and> has_key ''password'' (json (fst (get_users sample_db (request_of [] [] []))))"
proof -
  have "has_key ''password'' (json (fst (get_users sample_db (request_of [] [] []))))"
    by (simp add: get_users_def reply_def User_findAll_def user_attrs_def sample_db_def)
  with get_users_sends_every_attribute [of sample_db "request_of [] [] []"]
  show ?thesis by (simp add: sample_db_def first_user_def text_json_def)
qed

end
